theory Spec2Isabelle
  imports Complex_Main
begin

section \<open>The Instapaper newsletter archiver (archive\_newsletters.py)\<close>

text \<open>
  The script is one sequential pass: load the configuration, exchange the credentials
  for a token pair, list the bookmarks tagged "newsletter", keep those older than seven
  days, archive each of them, print a summary and set the exit status.

  Everything the script receives from outside its own text is gathered in one record,
  \<open>environment\<close>: the configuration file, the clock, and the replies of the three
  endpoints. Everything it does to the outside is written to a trace of events, in the
  order the statements run: lines printed on the two streams, sessions constructed and
  requests posted. A function of the script becomes a function from the environment to a
  trace and either a value or the reason control left the function early
  (\<open>sys.exit\<close> or an exception that nothing in the script catches).
\<close>

subsection \<open>Values\<close>

text \<open>
  What \<open>json.load\<close> and \<open>response.json()\<close> produce: \<open>None\<close>, \<open>bool\<close>, \<open>int\<close>,
  \<open>float\<close>, \<open>str\<close>, \<open>list\<close> and \<open>dict\<close>. A \<open>dict\<close> is the list of its items, each
  key once. A \<open>str\<close> is the list of the bytes of its UTF-8 encoding, which is also what
  the streams carry.

  A JSON number with a fraction or an exponent becomes a \<open>float\<close>, a binary64 number:
  \<open>Finite q\<close> is the number whose exact value is the rational \<open>q\<close>; the decoder also
  yields the two infinities and NaN (for \<open>Infinity\<close>, \<open>1e999\<close>, \<open>NaN\<close>).
\<close>

datatype py_float =
    Finite rat
  | PlusInfinity
  | MinusInfinity
  | NaN

datatype json =
    JNull
  | JBool bool
  | JInt int
  | JFloat py_float
  | JStr string
  | JArr "json list"
  | JObj "(string \<times> json) list"

datatype py_exception =
    JSONDecodeError
  | KeyError string
  | TypeError
  | ValueError
  | AttributeError
  | OverflowError
  | OSError

text \<open>
  An \<open>OAuth1Session\<close> object: the four keyword arguments the script passes. What the
  library itself does with them when it signs a request is outside the model.
\<close>

record session =
  client_key :: json
  client_secret :: json
  resource_owner_key :: "string option"
  resource_owner_secret :: "string option"

text \<open>
  A \<open>requests\<close> response: \<open>status_code\<close>, \<open>text\<close> (here \<open>response_text\<close>), and what \<open>json()\<close> returns
  (\<open>None\<close> when the body is not JSON and \<open>json()\<close> raises).
\<close>

record response =
  status_code :: int
  response_text :: string
  json_body :: "json option"

text \<open>
  What \<open>load_config\<close> finds at \<open>CONFIG_FILE\<close>: no file, a file on which \<open>json.load\<close>
  raises, or a file that \<open>json.load\<close> turns into a value. The exception is written
  \<open>JSONDecodeError\<close>; for a file that is not UTF-8 text Python raises
  \<open>UnicodeDecodeError\<close> at the same place, with the same effect on the run.
\<close>

datatype config_source =
    NoFile
  | BadJson
  | Json json

text \<open>
  \<open>config_path\<close> is \<open>str(CONFIG_FILE)\<close>. \<open>now_us\<close> is \<open>datetime.now(timezone.utc)\<close> in
  microseconds since the epoch, the resolution of a \<open>datetime\<close>. \<open>archive_status k b\<close>
  is the status code of the reply to the \<open>k\<close>-th archive request of the run (counted
  from 0), which carried the identifier \<open>b\<close>. \<open>py_repr\<close> is Python's rendering of a
  \<open>float\<close>, \<open>list\<close> or \<open>dict\<close> inside an f-string. Every request is answered: a request on
  which the HTTP library itself raises (no connection) is outside the model.
\<close>

record environment =
  config_path :: string
  config_file :: config_source
  now_us :: int
  token_response :: response
  list_response :: response
  archive_status :: "nat \<Rightarrow> json \<Rightarrow> int"
  py_repr :: "json \<Rightarrow> string"

subsection \<open>Effects\<close>

datatype event =
    Stdout string
  | Stderr string
  | NewSession session
  | Post session string "(string \<times> json) list"

datatype abort =
    SysExit int
  | Raise py_exception

type_synonym 'a io = "event list \<times> (abort + 'a)"

definition return_io :: "'a \<Rightarrow> 'a io" where
  "return_io x = ([], Inr x)"

definition bind_io :: "'a io \<Rightarrow> ('a \<Rightarrow> 'b io) \<Rightarrow> 'b io" where
  "bind_io m f =
     (case m of
        (tr, Inl a) \<Rightarrow> (tr, Inl a)
      | (tr, Inr x) \<Rightarrow> (case f x of (tr', r) \<Rightarrow> (tr @ tr', r)))"

definition then_io :: "unit io \<Rightarrow> 'b io \<Rightarrow> 'b io" where
  "then_io m k = bind_io m (\<lambda>_. k)"

definition emit :: "event \<Rightarrow> unit io" where
  "emit e = ([e], Inr ())"

definition print_out :: "string \<Rightarrow> unit io" where
  "print_out s = emit (Stdout s)"

definition print_err :: "string \<Rightarrow> unit io" where
  "print_err s = emit (Stderr s)"

definition sys_exit :: "int \<Rightarrow> 'a io" where
  "sys_exit n = ([], Inl (SysExit n))"

definition raise :: "py_exception \<Rightarrow> 'a io" where
  "raise e = ([], Inl (Raise e))"

definition lift :: "py_exception + 'a \<Rightarrow> 'a io" where
  "lift r = (case r of Inl e \<Rightarrow> raise e | Inr x \<Rightarrow> return_io x)"

subsection \<open>The Python operations the script uses\<close>

text \<open>\<open>str(n)\<close> for an \<open>int\<close>.\<close>

definition digit_char :: "nat \<Rightarrow> char" where
  "digit_char d = ''0123456789'' ! d"

fun str_nat :: "nat \<Rightarrow> string" where
  "str_nat n =
     (if n < 10 then [digit_char n]
      else str_nat (n div 10) @ [digit_char (n mod 10)])"

declare str_nat.simps [simp del]

definition str_int :: "int \<Rightarrow> string" where
  "str_int i = (if i < 0 then CHR ''-'' # str_nat (nat (- i)) else str_nat (nat i))"

text \<open>\<open>s.split(c)\<close> for a one-character separator: one piece more than separators.\<close>

fun split_on :: "char \<Rightarrow> string \<Rightarrow> string list" where
  "split_on c [] = [[]]"
| "split_on c (x # xs) =
     (let r = split_on c xs
      in if x = c then [] # r else (x # hd r) # tl r)"

text \<open>
  \<open>dict(pairs)\<close>: every element must have length 2 (\<open>ValueError\<close> otherwise); a key
  given twice keeps the later value.
\<close>

fun py_dict :: "string list list \<Rightarrow> (string \<rightharpoonup> string) \<Rightarrow> py_exception + (string \<rightharpoonup> string)" where
  "py_dict [] m = Inr m"
| "py_dict (p # ps) m =
     (case p of
        [k, v] \<Rightarrow> py_dict ps (m(k \<mapsto> v))
      | _ \<Rightarrow> Inl ValueError)"

text \<open>\<open>d[k]\<close> for a string key \<open>k\<close>: only a \<open>dict\<close> accepts it.\<close>

fun subscript :: "json \<Rightarrow> string \<Rightarrow> py_exception + json" where
  "subscript (JObj kvs) k =
     (case map_of kvs k of None \<Rightarrow> Inl (KeyError k) | Some v \<Rightarrow> Inr v)"
| "subscript _ k = Inl TypeError"

text \<open>\<open>d.get(k, default)\<close>: only a \<open>dict\<close> has the method.\<close>

fun py_get :: "json \<Rightarrow> string \<Rightarrow> json \<Rightarrow> py_exception + json" where
  "py_get (JObj kvs) k d = Inr (case map_of kvs k of None \<Rightarrow> d | Some v \<Rightarrow> v)"
| "py_get _ k d = Inl AttributeError"

text \<open>
  A byte \<open>10xxxxxx\<close> continues a UTF-8 character; Python counts and slices a \<open>str\<close> by
  characters.
\<close>

definition utf8_continuation :: "char \<Rightarrow> bool" where
  "utf8_continuation c = (128 \<le> (of_char c :: nat) \<and> (of_char c :: nat) < 192)"

function utf8_chars :: "string \<Rightarrow> string list" where
  "utf8_chars [] = []"
| "utf8_chars (c # cs) =
     (c # takeWhile utf8_continuation cs) # utf8_chars (dropWhile utf8_continuation cs)"
  by pat_completeness auto
termination
  by (relation "measure length") (auto simp: length_dropWhile_le less_Suc_eq_le)

text \<open>\<open>len(v)\<close>.\<close>

fun py_len :: "json \<Rightarrow> py_exception + nat" where
  "py_len (JArr xs) = Inr (length xs)"
| "py_len (JObj kvs) = Inr (length kvs)"
| "py_len (JStr s) = Inr (length (utf8_chars s))"
| "py_len _ = Inl TypeError"

text \<open>
  \<open>v[1:]\<close>. A \<open>dict\<close> rejects a slice as a key (\<open>TypeError\<close> up to Python 3.11, where a
  slice cannot be hashed; \<open>KeyError\<close> from 3.12 on).
\<close>

fun slice_from_1 :: "json \<Rightarrow> py_exception + json" where
  "slice_from_1 (JArr xs) = Inr (JArr (drop 1 xs))"
| "slice_from_1 (JStr s) = Inr (JStr (concat (drop 1 (utf8_chars s))))"
| "slice_from_1 _ = Inl TypeError"

text \<open>The elements a \<open>for\<close> loop visits.\<close>

fun py_iter :: "json \<Rightarrow> py_exception + json list" where
  "py_iter (JArr xs) = Inr xs"
| "py_iter (JStr s) = Inr (map JStr (utf8_chars s))"
| "py_iter (JObj kvs) = Inr (map (\<lambda>kv. JStr (fst kv)) kvs)"
| "py_iter _ = Inl TypeError"

text \<open>\<open>not v\<close> is false exactly for a non-empty container.\<close>

fun py_truthy :: "json \<Rightarrow> bool" where
  "py_truthy JNull = False"
| "py_truthy (JBool b) = b"
| "py_truthy (JInt i) = (i \<noteq> 0)"
| "py_truthy (JFloat f) = (f \<noteq> Finite 0)"
| "py_truthy (JStr s) = (s \<noteq> [])"
| "py_truthy (JArr xs) = (xs \<noteq> [])"
| "py_truthy (JObj kvs) = (kvs \<noteq> [])"

text \<open>\<open>f"{v}"\<close>.\<close>

fun py_str :: "environment \<Rightarrow> json \<Rightarrow> string" where
  "py_str env JNull = ''None''"
| "py_str env (JBool b) = (if b then ''True'' else ''False'')"
| "py_str env (JInt i) = str_int i"
| "py_str env (JStr s) = s"
| "py_str env v = py_repr env v"

text \<open>
  Binary64 arithmetic, as far as \<open>fromtimestamp\<close> needs it. \<open>bit_length\<close> counts the
  binary digits of a positive integer; \<open>floor_log2 x\<close> is the exponent \<open>e\<close> with
  \<open>2\<^sup>e \<le> x < 2\<^sup>e\<^sup>+\<^sup>1\<close> for a positive \<open>x\<close>; \<open>round_half_even\<close> rounds to the
  nearest integer, a tie to the even one; \<open>to_double\<close> rounds a rational to the nearest
  binary64 number (53 significant bits, steps of \<open>2\<^sup>-\<^sup>1\<^sup>0\<^sup>7\<^sup>4\<close> at the bottom), a tie to
  the even one. The results here are below \<open>10\<^sup>6\<close>, so none overflows.
\<close>

function bit_length :: "int \<Rightarrow> int" where
  "bit_length n = (if n \<le> 0 then 0 else 1 + bit_length (n div 2))"
  by pat_completeness auto
termination
  by (relation "measure nat") auto

declare bit_length.simps [simp del]

definition floor_log2 :: "rat \<Rightarrow> int" where
  "floor_log2 x =
     (let (p, q) = quotient_of x;
          d = bit_length p - bit_length q
      in if power_int 2 d \<le> x then d else d - 1)"

definition round_half_even :: "rat \<Rightarrow> int" where
  "round_half_even x =
     (let n = \<lfloor>x\<rfloor>; r = x - of_int n
      in if r < 1 / 2 then n
         else if 1 / 2 < r then n + 1
         else if even n then n else n + 1)"

definition to_double :: "rat \<Rightarrow> rat" where
  "to_double x =
     (if x = 0 then 0
      else let e = max (floor_log2 \<bar>x\<bar> - 52) (- 1074)
           in of_int (round_half_even (x / power_int 2 e)) * power_int 2 e)"

text \<open>
  A \<open>datetime\<close> with \<open>tzinfo=timezone.utc\<close> is the number of microseconds since the
  epoch. \<open>datetime.fromtimestamp(t, tz=timezone.utc)\<close> accepts the years 1 to 9999. Outside
  it raises, on Linux with a 64-bit \<open>time_t\<close>: \<open>OverflowError\<close> when the seconds do not
  fit \<open>time_t\<close>, \<open>OSError\<close> when \<open>gmtime\<close> cannot express the year, \<open>ValueError\<close>
  otherwise.

  An \<open>int\<close> (a \<open>bool\<close> is one) is taken as it is. A \<open>float\<close> is split by \<open>modf\<close> into
  its integral part and the rest, both with its sign; the rest times \<open>10\<^sup>6\<close>, a binary64
  product, is rounded half to even to give the microseconds, and the seconds are
  checked after the carry.
\<close>

type_synonym datetime = int

definition min_timestamp :: int where
  "min_timestamp = - 62135596800"

definition max_timestamp :: int where
  "max_timestamp = 253402300799"

definition range_error :: "int \<Rightarrow> py_exception" where
  "range_error sec =
     (if sec < - (2 ^ 63) \<or> 2 ^ 63 \<le> sec then OverflowError
      else if sec < - 67768040609740800 \<or> 67768036191676799 < sec then OSError
      else ValueError)"

definition from_seconds :: "int \<Rightarrow> py_exception + datetime" where
  "from_seconds t =
     (if min_timestamp \<le> t \<and> t \<le> max_timestamp then Inr (t * 1000000)
      else Inl (range_error t))"

definition intpart :: "rat \<Rightarrow> int" where
  "intpart d = (if 0 \<le> d then \<lfloor>d\<rfloor> else \<lceil>d\<rceil>)"

definition from_float :: "rat \<Rightarrow> py_exception + datetime" where
  "from_float d =
     (let floatpart = to_double ((d - of_int (intpart d)) * 1000000);
          us = intpart d * 1000000 + round_half_even floatpart;
          sec = us div 1000000
      in if min_timestamp \<le> sec \<and> sec \<le> max_timestamp then Inr us
         else Inl (range_error sec))"

fun fromtimestamp :: "json \<Rightarrow> py_exception + datetime" where
  "fromtimestamp (JInt t) = from_seconds t"
| "fromtimestamp (JBool b) = from_seconds (if b then 1 else 0)"
| "fromtimestamp (JFloat (Finite d)) = from_float d"
| "fromtimestamp (JFloat NaN) = Inl ValueError"
| "fromtimestamp (JFloat f) = Inl OverflowError"
| "fromtimestamp _ = Inl TypeError"

text \<open>\<open>timedelta(days=n)\<close> in microseconds.\<close>

definition timedelta_days :: "int \<Rightarrow> int" where
  "timedelta_days n = n * 86400 * 1000000"

subsection \<open>The script\<close>

definition INSTAPAPER_API_BASE :: string where
  "INSTAPAPER_API_BASE = ''https://www.instapaper.com/api/1''"

text \<open>
  \<open>load_config\<close>: a missing file is reported on the error stream and ends the process
  with \<open>sys.exit(1)\<close>; \<open>json.load\<close> raises on a file that is not JSON.
\<close>

definition load_config :: "environment \<Rightarrow> json io" where
  "load_config env =
     (case config_file env of
        NoFile \<Rightarrow>
          then_io (print_err (''Error: Configuration file not found at '' @ config_path env))
         (then_io (print_err ''Please create instapaper_config.json with your credentials.'')
         (then_io (print_err ''See instapaper_config.example.json for format.'')
         (sys_exit 1)))
      | BadJson \<Rightarrow> raise JSONDecodeError
      | Json j \<Rightarrow> return_io j)"

text \<open>
  \<open>get_access_token\<close>: one request, signed with the consumer credentials only. A status
  other than 200 is reported and ends the process. A 200 body is read as
  \<open>dict(param.split('=') for param in response.text.split('&'))\<close>.
\<close>

definition get_access_token ::
    "environment \<Rightarrow> json \<Rightarrow> json \<Rightarrow> json \<Rightarrow> json \<Rightarrow> (string \<times> string) io" where
  "get_access_token env username password consumer_key consumer_secret =
     (let oauth = \<lparr>client_key = consumer_key, client_secret = consumer_secret,
                    resource_owner_key = None, resource_owner_secret = None\<rparr>;
          url = INSTAPAPER_API_BASE @ ''/oauth/access_token''
      in then_io (emit (NewSession oauth))
        (then_io (emit (Post oauth url
                     [(''x_auth_username'', username),
                      (''x_auth_password'', password),
                      (''x_auth_mode'', JStr ''client_auth'')]))
        (let response = token_response env
         in if status_code response \<noteq> 200 then
              then_io (print_err (''Error getting access token: '' @ str_int (status_code response)))
             (then_io (print_err (response_text response))
             (sys_exit 1))
            else
              bind_io (lift (py_dict (map (split_on CHR ''='')
                                          (split_on CHR ''&'' (response_text response)))
                                     Map.empty))
                (\<lambda>tokens.
                   case tokens ''oauth_token'' of
                     None \<Rightarrow> raise (KeyError ''oauth_token'')
                   | Some tok \<Rightarrow>
                       (case tokens ''oauth_token_secret'' of
                          None \<Rightarrow> raise (KeyError ''oauth_token_secret'')
                        | Some sec \<Rightarrow> return_io (tok, sec))))))"

text \<open>
  \<open>get_newsletter_bookmarks\<close>: one request; a status other than 200 is reported and gives
  the empty list; otherwise everything after the first element of the body.
\<close>

definition get_newsletter_bookmarks :: "environment \<Rightarrow> session \<Rightarrow> json io" where
  "get_newsletter_bookmarks env oauth_session =
     (let url = INSTAPAPER_API_BASE @ ''/bookmarks/list'';
          limit = 500
      in then_io (emit (Post oauth_session url
                     [(''limit'', JInt limit), (''tag'', JStr ''newsletter'')]))
        (let response = list_response env
         in if status_code response \<noteq> 200 then
              then_io (print_err (''Error fetching bookmarks: '' @ str_int (status_code response)))
             (then_io (print_err (response_text response))
             (return_io (JArr [])))
            else
              (case json_body response of
                 None \<Rightarrow> raise JSONDecodeError
               | Some data \<Rightarrow>
                   bind_io (lift (py_len data))
                     (\<lambda>n. if n > 1 then lift (slice_from_1 data) else return_io (JArr [])))))"

text \<open>\<open>archive_bookmark\<close>, for the \<open>k\<close>-th archive request of the run.\<close>

definition archive_bookmark :: "environment \<Rightarrow> session \<Rightarrow> nat \<Rightarrow> json \<Rightarrow> bool io" where
  "archive_bookmark env oauth_session k bookmark_id =
     (let url = INSTAPAPER_API_BASE @ ''/bookmarks/archive''
      in then_io (emit (Post oauth_session url [(''bookmark_id'', bookmark_id)]))
        (return_io (archive_status env k bookmark_id = 200)))"

text \<open>
  The first loop of \<open>main\<close>: \<open>old_bookmarks\<close> grows by the records whose time is before
  \<open>cutoff_time\<close>. A record without a usable \<open>time\<close> raises and ends the loop.
\<close>

fun filter_loop :: "datetime \<Rightarrow> json list \<Rightarrow> json list \<Rightarrow> py_exception + json list" where
  "filter_loop cutoff_time [] old_bookmarks = Inr old_bookmarks"
| "filter_loop cutoff_time (bookmark # rest) old_bookmarks =
     (case subscript bookmark ''time'' of
        Inl e \<Rightarrow> Inl e
      | Inr t \<Rightarrow>
          (case fromtimestamp t of
             Inl e \<Rightarrow> Inl e
           | Inr bookmark_time \<Rightarrow>
               filter_loop cutoff_time rest
                 (if bookmark_time < cutoff_time then old_bookmarks @ [bookmark]
                  else old_bookmarks)))"

text \<open>The glyphs of the two progress lines, U+2713 and U+2717, in UTF-8.\<close>

definition check_mark :: string where
  "check_mark = [CHR 0xE2, CHR 0x9C, CHR 0x93]"

definition ballot_x :: string where
  "ballot_x = [CHR 0xE2, CHR 0x9C, CHR 0x97]"

text \<open>
  The second loop of \<open>main\<close>, with its two counters; \<open>k\<close> counts the archive requests
  made so far.
\<close>

fun archive_loop ::
    "environment \<Rightarrow> session \<Rightarrow> json list \<Rightarrow> nat \<Rightarrow> nat \<Rightarrow> nat \<Rightarrow> (nat \<times> nat) io" where
  "archive_loop env oauth_session [] k archived_count failed_count =
     return_io (archived_count, failed_count)"
| "archive_loop env oauth_session (bookmark # rest) k archived_count failed_count =
     bind_io (lift (subscript bookmark ''bookmark_id'')) (\<lambda>bookmark_id.
     bind_io (lift (py_get bookmark ''title'' (JStr ''Untitled''))) (\<lambda>title.
     bind_io (archive_bookmark env oauth_session k bookmark_id) (\<lambda>ok.
       if ok then
         then_io (print_out (check_mark @ '' Archived: '' @ py_str env title))
           (archive_loop env oauth_session rest (Suc k) (archived_count + 1) failed_count)
       else
         then_io (print_err (ballot_x @ '' Failed to archive: '' @ py_str env title))
           (archive_loop env oauth_session rest (Suc k) archived_count (failed_count + 1)))))"

definition summary_line :: "nat \<Rightarrow> nat \<Rightarrow> string" where
  "summary_line archived_count failed_count =
     CHR 0x0A # ''Summary: '' @ str_nat archived_count @ '' archived, ''
       @ str_nat failed_count @ '' failed''"

definition main :: "environment \<Rightarrow> unit io" where
  "main env =
     bind_io (load_config env) (\<lambda>config.
     bind_io (lift (subscript config ''consumer_key'')) (\<lambda>consumer_key.
     bind_io (lift (subscript config ''consumer_secret'')) (\<lambda>consumer_secret.
     bind_io (lift (subscript config ''username'')) (\<lambda>username.
     bind_io (lift (py_get config ''password'' (JStr []))) (\<lambda>password.
     then_io (print_out ''Authenticating with Instapaper...'')
    (bind_io (get_access_token env username password consumer_key consumer_secret)
       (\<lambda>(access_token, access_token_secret).
     let oauth_session = \<lparr>client_key = consumer_key, client_secret = consumer_secret,
                           resource_owner_key = Some access_token,
                           resource_owner_secret = Some access_token_secret\<rparr>
     in then_io (emit (NewSession oauth_session))
    (then_io (print_out ''Fetching newsletter bookmarks...'')
    (bind_io (get_newsletter_bookmarks env oauth_session) (\<lambda>bookmarks.
     bind_io (lift (py_len bookmarks)) (\<lambda>n.
     then_io (print_out (''Found '' @ str_nat n @ '' bookmarks with '' @ [CHR 0x27]
                          @ ''newsletter'' @ [CHR 0x27] @ '' tag''))
    (if \<not> py_truthy bookmarks then print_out ''No bookmarks to process''
     else
       let cutoff_time = now_us env - timedelta_days 7
       in bind_io (lift (py_iter bookmarks)) (\<lambda>items.
          bind_io (lift (filter_loop cutoff_time items [])) (\<lambda>old_bookmarks.
          then_io (print_out (''Found '' @ str_nat (length old_bookmarks)
                               @ '' newsletters older than 7 days''))
         (if old_bookmarks = [] then print_out ''No bookmarks to archive''
          else
            bind_io (archive_loop env oauth_session old_bookmarks 0 0 0)
              (\<lambda>(archived_count, failed_count).
            then_io (print_out (summary_line archived_count failed_count))
           (if failed_count > 0 then sys_exit 1 else return_io ())))))))))))))))))"

subsection \<open>What the process shows\<close>

text \<open>
  The exit status: 0 when \<open>main\<close> returns, the argument of \<open>sys.exit\<close>, and 1 when an
  exception reaches the top, which the interpreter reports with a traceback on the
  error stream.
\<close>

fun exit_status :: "unit io \<Rightarrow> int" where
  "exit_status (tr, Inr u) = 0"
| "exit_status (tr, Inl (SysExit n)) = n"
| "exit_status (tr, Inl (Raise e)) = 1"

datatype stderr_item =
    Line string
  | Traceback py_exception

fun stderr_line :: "event \<Rightarrow> stderr_item list" where
  "stderr_line (Stderr s) = [Line s]"
| "stderr_line _ = []"

fun error_stream :: "unit io \<Rightarrow> stderr_item list" where
  "error_stream (tr, r) =
     concat (map stderr_line tr)
       @ (case r of Inl (Raise e) \<Rightarrow> [Traceback e] | _ \<Rightarrow> [])"

fun stdout_line :: "event \<Rightarrow> string list" where
  "stdout_line (Stdout s) = [s]"
| "stdout_line _ = []"

definition output_stream :: "unit io \<Rightarrow> string list" where
  "output_stream run = concat (map stdout_line (fst run))"

text \<open>The requests of a trace.\<close>

fun is_post :: "event \<Rightarrow> bool" where
  "is_post (Post s url d) = True"
| "is_post _ = False"

subsection \<open>The stages of \<open>main\<close>\<close>

text \<open>
  \<open>main\<close> is one function in the script. The definitions below name its consecutive
  parts, so that a property of one step can be stated with the steps before it as
  context; \<open>main_stages\<close> proves that \<open>main\<close> is their composition.
\<close>

text \<open>Lines 93 to 99: the configuration and the four values read from it.\<close>

definition read_credentials :: "environment \<Rightarrow> (json \<times> json \<times> json \<times> json) io" where
  "read_credentials env =
     bind_io (load_config env) (\<lambda>config.
     bind_io (lift (subscript config ''consumer_key'')) (\<lambda>consumer_key.
     bind_io (lift (subscript config ''consumer_secret'')) (\<lambda>consumer_secret.
     bind_io (lift (subscript config ''username'')) (\<lambda>username.
     bind_io (lift (py_get config ''password'' (JStr []))) (\<lambda>password.
     return_io (consumer_key, consumer_secret, username, password))))))"

text \<open>Lines 93 to 112: up to the session that carries the token pair.\<close>

definition authenticate :: "environment \<Rightarrow> session io" where
  "authenticate env =
     bind_io (read_credentials env) (\<lambda>(consumer_key, consumer_secret, username, password).
     then_io (print_out ''Authenticating with Instapaper...'')
    (bind_io (get_access_token env username password consumer_key consumer_secret)
       (\<lambda>(access_token, access_token_secret).
     let oauth_session = \<lparr>client_key = consumer_key, client_secret = consumer_secret,
                           resource_owner_key = Some access_token,
                           resource_owner_secret = Some access_token_secret\<rparr>
     in then_io (emit (NewSession oauth_session)) (return_io oauth_session))))"

text \<open>Line 128: the time of a record as a \<open>datetime\<close>.\<close>

definition bookmark_time :: "json \<Rightarrow> py_exception + datetime" where
  "bookmark_time bookmark =
     (case subscript bookmark ''time'' of
        Inl e \<Rightarrow> Inl e
      | Inr t \<Rightarrow> fromtimestamp t)"

text \<open>Lines 122 to 130: the records selected for archiving.\<close>

definition select_old :: "environment \<Rightarrow> json \<Rightarrow> py_exception + json list" where
  "select_old env bookmarks =
     (let cutoff_time = now_us env - timedelta_days 7
      in case py_iter bookmarks of
           Inl e \<Rightarrow> Inl e
         | Inr items \<Rightarrow> filter_loop cutoff_time items [])"

text \<open>Lines 132 to 156: the archive requests, the summary and the exit status.\<close>

definition archive_all :: "environment \<Rightarrow> session \<Rightarrow> json list \<Rightarrow> unit io" where
  "archive_all env oauth_session old_bookmarks =
     then_io (print_out (''Found '' @ str_nat (length old_bookmarks)
                          @ '' newsletters older than 7 days''))
    (if old_bookmarks = [] then print_out ''No bookmarks to archive''
     else
       bind_io (archive_loop env oauth_session old_bookmarks 0 0 0)
         (\<lambda>(archived_count, failed_count).
       then_io (print_out (summary_line archived_count failed_count))
      (if failed_count > 0 then sys_exit 1 else return_io ())))"

text \<open>Lines 116 to 156: everything after the listing.\<close>

definition process :: "environment \<Rightarrow> session \<Rightarrow> json \<Rightarrow> unit io" where
  "process env oauth_session bookmarks =
     bind_io (lift (py_len bookmarks)) (\<lambda>n.
     then_io (print_out (''Found '' @ str_nat n @ '' bookmarks with '' @ [CHR 0x27]
                          @ ''newsletter'' @ [CHR 0x27] @ '' tag''))
    (if \<not> py_truthy bookmarks then print_out ''No bookmarks to process''
     else bind_io (lift (select_old env bookmarks)) (archive_all env oauth_session)))"

subsection \<open>Notions used to state the properties\<close>


text \<open>
  The title a progress line shows: the record's \<open>title\<close>, and \<open>Untitled\<close> for a record
  that has none.
\<close>

fun title_of :: "json \<Rightarrow> json" where
  "title_of (JObj kvs) = (case map_of kvs ''title'' of Some v \<Rightarrow> v | None \<Rightarrow> JStr ''Untitled'')"
| "title_of _ = JStr ''Untitled''"

text \<open>
  What one archive attempt leaves in the trace: the request, then the progress line. The
  triple is the number of the request, the record, and its identifier.
\<close>

definition attempt_events :: "environment \<Rightarrow> session \<Rightarrow> nat \<times> json \<times> json \<Rightarrow> event list" where
  "attempt_events env s = (\<lambda>(k, b, i).
     [Post s (INSTAPAPER_API_BASE @ ''/bookmarks/archive'') [(''bookmark_id'', i)],
      if archive_status env k i = 200
      then Stdout (check_mark @ '' Archived: '' @ py_str env (title_of b))
      else Stderr (ballot_x @ '' Failed to archive: '' @ py_str env (title_of b))])"

text \<open>
  The outcome of each archive attempt, in order, when the identifiers \<open>ids\<close> are
  requested one after the other and the first request is the \<open>k\<close>-th of the run:
  \<open>True\<close> where the reply has status 200.
\<close>

definition outcomes :: "environment \<Rightarrow> nat \<Rightarrow> json list \<Rightarrow> bool list" where
  "outcomes env k ids =
     map (\<lambda>(j, i). archive_status env j i = 200) (zip [k..<k + length ids] ids)"

text \<open>The archive requests of a trace.\<close>

fun is_archive_request :: "event \<Rightarrow> bool" where
  "is_archive_request (Post s url d) = (url = INSTAPAPER_API_BASE @ ''/bookmarks/archive'')"
| "is_archive_request _ = False"

text \<open>The fields \<open>main\<close> reads with \<open>config[...]\<close>.\<close>

definition required_fields :: "string list" where
  "required_fields = [''consumer_key'', ''consumer_secret'', ''username'']"

text \<open>A session that carries a token pair is constructed.\<close>

fun is_token_session :: "event \<Rightarrow> bool" where
  "is_token_session (NewSession s) = (resource_owner_key s \<noteq> None)"
| "is_token_session _ = False"

text \<open>
  The shape of a token reply: every piece between \<open>&\<close> holds exactly one \<open>=\<close>, and the
  text before the \<open>=\<close> is \<open>oauth_token\<close> in one piece and \<open>oauth_token_secret\<close> in
  another.
\<close>

definition token_body_ok :: "string \<Rightarrow> bool" where
  "token_body_ok body =
     ((\<forall>seg\<in>set (split_on CHR ''&'' body). count_list seg CHR ''='' = 1)
      \<and> (\<exists>seg\<in>set (split_on CHR ''&'' body). takeWhile (\<lambda>c. c \<noteq> CHR ''='') seg = ''oauth_token'')
      \<and> (\<exists>seg\<in>set (split_on CHR ''&'' body).
            takeWhile (\<lambda>c. c \<noteq> CHR ''='') seg = ''oauth_token_secret''))"

subsection \<open>Sample runs\<close>

text \<open>
  A configuration with the three required fields, a token reply in the expected form, and
  a clock at 1000000 seconds after the epoch, so that the cutoff is at 395200 seconds.
\<close>

definition sample_config :: json where
  "sample_config =
     JObj [(''consumer_key'', JStr ''ck''), (''consumer_secret'', JStr ''cs''),
           (''username'', JStr ''reader'')]"

definition sample_session :: session where
  "sample_session =
     \<lparr>client_key = JStr ''ck'', client_secret = JStr ''cs'',
      resource_owner_key = Some ''T'', resource_owner_secret = Some ''S''\<rparr>"

definition bookmark :: "int \<Rightarrow> string \<Rightarrow> int \<Rightarrow> json" where
  "bookmark i t tm = JObj [(''bookmark_id'', JInt i), (''title'', JStr t), (''time'', JInt tm)]"

definition account :: json where
  "account = JObj [(''type'', JStr ''user''), (''user_id'', JInt 7)]"

definition listing :: "json list \<Rightarrow> response" where
  "listing xs = \<lparr>status_code = 200, response_text = [], json_body = Some (JArr xs)\<rparr>"

definition sample_env :: environment where
  "sample_env =
     \<lparr>config_path = ''/opt/instapaper/instapaper_config.json'',
      config_file = Json sample_config,
      now_us = 1000000000000,
      token_response =
        \<lparr>status_code = 200, response_text = ''oauth_token=T&oauth_token_secret=S'',
         json_body = None\<rparr>,
      list_response = listing [account],
      archive_status = (\<lambda>k b. 200),
      py_repr = (\<lambda>v. ''[...]'')\<rparr>"

text \<open>
  Scenario A: three bookmarks, two of them older than the cutoff (the second is exactly
  at the cutoff), every archive request answered with 200.
\<close>

definition scenario_A :: environment where
  "scenario_A =
     sample_env\<lparr>list_response :=
       listing [account, bookmark 1 ''Monday'' 10, bookmark 2 ''Tuesday'' 395200,
                bookmark 3 ''Wednesday'' 395199]\<rparr>"




text \<open>Scenario B: one bookmark older than the cutoff, its archive request answered with 500.\<close>

definition scenario_B :: environment where
  "scenario_B =
     sample_env\<lparr>list_response := listing [account, bookmark 1 ''Monday'' 10],
                archive_status := (\<lambda>k b. 500)\<rparr>"

text \<open>Scenario D: the listing request answered with 500.\<close>

definition scenario_D :: environment where
  "scenario_D =
     sample_env\<lparr>list_response :=
       \<lparr>status_code = 500, response_text = ''Internal Server Error'', json_body = None\<rparr>\<rparr>"

section \<open>Lemmas\<close>

subsection \<open>Sequencing\<close>

lemma bind_io_Inl [simp]: "bind_io (tr, Inl a) f = (tr, Inl a)"
  by (simp add: bind_io_def)

lemma bind_io_Inr [simp]: "bind_io (tr, Inr x) f = (tr @ fst (f x), snd (f x))"
  by (simp add: bind_io_def split: prod.splits)

lemma bind_io_return [simp]: "bind_io (return_io x) f = f x"
  by (simp add: return_io_def)

lemma bind_io_raise [simp]: "bind_io (raise e) f = raise e"
  by (simp add: raise_def)

lemma bind_io_sys_exit [simp]: "bind_io (sys_exit n) f = sys_exit n"
  by (simp add: sys_exit_def)

lemma then_io_emit [simp]: "then_io (emit e) k = (e # fst k, snd k)"
  by (simp add: then_io_def emit_def)

lemma lift_simps [simp]: "lift (Inl e) = raise e" "lift (Inr x) = return_io x"
  by (simp_all add: lift_def)

lemma io_pair_simps [simp]:
  "fst (return_io x) = []" "snd (return_io x) = Inr x"
  "fst (raise e) = []" "snd (raise e) = Inl (Raise e)"
  "fst (sys_exit n) = []" "snd (sys_exit n) = Inl (SysExit n)"
  "fst (print_out s) = [Stdout s]" "snd (print_out s) = Inr ()"
  "fst (print_err s) = [Stderr s]" "snd (print_err s) = Inr ()"
  "fst (emit ev) = [ev]" "snd (emit ev) = Inr ()"
  by (simp_all add: return_io_def raise_def sys_exit_def print_out_def print_err_def emit_def)

lemma then_io_print [simp]:
  "then_io (print_out s) k = (Stdout s # fst k, snd k)"
  "then_io (print_err s) k = (Stderr s # fst k, snd k)"
  by (simp_all add: print_out_def print_err_def)

lemma fst_lift [simp]: "fst (lift r) = []"
  by (cases r) simp_all

lemma snd_lift: "snd (lift r) = (case r of Inl e \<Rightarrow> Inl (Raise e) | Inr x \<Rightarrow> Inr x)"
  by (cases r) simp_all

lemma bind_io_pair: "bind_io m f = (case snd m of Inl a \<Rightarrow> (fst m, Inl a) | Inr x \<Rightarrow> (fst m @ fst (f x), snd (f x)))"
  by (cases m; cases "snd m") auto

lemma bind_io_snd_Inr: "snd m = Inr x \<Longrightarrow> bind_io m f = (fst m @ fst (f x), snd (f x))"
  by (simp add: bind_io_pair)

lemma bind_io_snd_Inl: "snd m = Inl a \<Longrightarrow> bind_io m f = (fst m, Inl a)"
  by (simp add: bind_io_pair)

lemma bind_io_assoc: "bind_io (bind_io m f) g = bind_io m (\<lambda>x. bind_io (f x) g)"
  by (cases m; cases "snd m") (auto simp: bind_io_def split: prod.splits sum.splits)

lemma bind_io_lift_case:
  "bind_io (lift (case r of Inl e \<Rightarrow> Inl e | Inr x \<Rightarrow> g x)) f
     = bind_io (lift r) (\<lambda>x. bind_io (lift (g x)) f)"
  by (cases r) simp_all

subsection \<open>Reading the configuration\<close>

lemma read_credentials_trace: "fst (read_credentials env) = concat (map (\<lambda>l. [Stderr l]) (case config_file env of NoFile \<Rightarrow>
   [''Error: Configuration file not found at '' @ config_path env,
    ''Please create instapaper_config.json with your credentials.'',
    ''See instapaper_config.example.json for format.''] | _ \<Rightarrow> []))"
  by (simp add: read_credentials_def load_config_def bind_io_pair snd_lift split: config_source.splits sum.splits)

lemma read_credentials_ok_trace:
  assumes "snd (read_credentials env) = Inr c"
  shows "fst (read_credentials env) = []"
proof (cases "config_file env")
  case NoFile
  then have "snd (read_credentials env) = Inl (SysExit 1)"
    by (simp add: read_credentials_def load_config_def)
  with assms show ?thesis by simp
qed (simp_all add: read_credentials_trace)

lemma read_credentials_no_file:
  "config_file env = NoFile \<Longrightarrow>
   read_credentials env =
     ([Stderr (''Error: Configuration file not found at '' @ config_path env),
       Stderr ''Please create instapaper_config.json with your credentials.'',
       Stderr ''See instapaper_config.example.json for format.''],
      Inl (SysExit 1))"
  by (simp add: read_credentials_def load_config_def)

lemma read_credentials_bad_json:
  "config_file env = BadJson \<Longrightarrow> read_credentials env = ([], Inl (Raise JSONDecodeError))"
  by (simp add: read_credentials_def load_config_def raise_def)

lemma subscript_error:
  "(\<forall>v. subscript config k \<noteq> Inr v) \<Longrightarrow>
   subscript config k = Inl (case config of JObj kvs \<Rightarrow> KeyError k | _ \<Rightarrow> TypeError)"
  by (cases config) (auto split: option.splits)

lemma read_credentials_missing_field:
  assumes "config_file env = Json config"
      and "\<exists>k\<in>set required_fields. \<forall>v. subscript config k \<noteq> Inr v"
  shows "\<exists>k\<in>set required_fields.
           read_credentials env =
             ([], Inl (Raise (case config of JObj kvs \<Rightarrow> KeyError k | _ \<Rightarrow> TypeError)))
         \<and> (\<forall>v. subscript config k \<noteq> Inr v)"
proof (cases "\<forall>v. subscript config ''consumer_key'' \<noteq> Inr v")
  case True
  from subscript_error [OF True] True assms(1) show ?thesis
    by (auto simp: read_credentials_def load_config_def required_fields_def raise_def)
next
  case ck: False
  then obtain v1 where v1: "subscript config ''consumer_key'' = Inr v1" by auto
  show ?thesis
  proof (cases "\<forall>v. subscript config ''consumer_secret'' \<noteq> Inr v")
    case True
    from subscript_error [OF True] True v1 assms(1) show ?thesis
      by (auto simp: read_credentials_def load_config_def required_fields_def raise_def)
  next
    case cs: False
    then obtain v2 where v2: "subscript config ''consumer_secret'' = Inr v2" by auto
    from assms(2) v1 v2 have un: "\<forall>v. subscript config ''username'' \<noteq> Inr v"
      by (auto simp: required_fields_def)
    from subscript_error [OF un] un v1 v2 assms(1) show ?thesis
      by (auto simp: read_credentials_def load_config_def required_fields_def raise_def)
  qed
qed

subsection \<open>\<open>main\<close> is the composition of its stages\<close>

lemma main_stages:
  "main env =
     bind_io (authenticate env) (\<lambda>oauth_session.
     then_io (print_out ''Fetching newsletter bookmarks...'')
    (bind_io (get_newsletter_bookmarks env oauth_session) (process env oauth_session)))"
  by (simp only: main_def authenticate_def read_credentials_def process_def [abs_def] archive_all_def [abs_def]
    select_old_def then_io_def Let_def bind_io_assoc bind_io_lift_case bind_io_return
    split_def fst_conv snd_conv)

lemma main_auth_failed:
  assumes "snd (authenticate env) = Inl a"
  shows "main env = (fst (authenticate env), Inl a)"
  by (simp add: main_stages bind_io_snd_Inl [OF assms])

lemma authenticate_credentials_failed:
  assumes "snd (read_credentials env) = Inl a"
  shows "authenticate env = (fst (read_credentials env), Inl a)"
  by (simp add: authenticate_def bind_io_snd_Inl [OF assms])

lemma main_credentials_failed:
  assumes "snd (read_credentials env) = Inl a"
  shows "main env = (fst (read_credentials env), Inl a)"
  using main_auth_failed [of env a] authenticate_credentials_failed [OF assms] by simp

lemma main_after_credentials:
  assumes "snd (read_credentials env) = Inr (ck, cs, u, pw)"
  shows "authenticate env =
     (Stdout ''Authenticating with Instapaper...''
        # fst (bind_io (get_access_token env u pw ck cs)
            (\<lambda>(access_token, access_token_secret).
               let oauth_session = \<lparr>client_key = ck, client_secret = cs,
                           resource_owner_key = Some access_token,
                           resource_owner_secret = Some access_token_secret\<rparr>
               in then_io (emit (NewSession oauth_session)) (return_io oauth_session))),
      snd (bind_io (get_access_token env u pw ck cs)
            (\<lambda>(access_token, access_token_secret).
               let oauth_session = \<lparr>client_key = ck, client_secret = cs,
                           resource_owner_key = Some access_token,
                           resource_owner_secret = Some access_token_secret\<rparr>
               in then_io (emit (NewSession oauth_session)) (return_io oauth_session))))"
  using assms read_credentials_ok_trace [OF assms]
  by (simp add: authenticate_def bind_io_snd_Inr [OF assms])

lemma main_token_raised:
  assumes "snd (read_credentials env) = Inr (ck, cs, u, pw)"
      and "snd (get_access_token env u pw ck cs) = Inl a"
  shows "main env = (Stdout ''Authenticating with Instapaper...'' # fst (get_access_token env u pw ck cs), Inl a)"
proof -
  have "authenticate env =
      (Stdout ''Authenticating with Instapaper...'' # fst (get_access_token env u pw ck cs), Inl a)"
    unfolding main_after_credentials [OF assms(1)] bind_io_snd_Inl [OF assms(2)] by simp
  with main_auth_failed [of env a] show ?thesis by simp
qed

lemma main_after_listing:
  assumes "snd (authenticate env) = Inr sess"
      and "snd (get_newsletter_bookmarks env sess) = Inr bookmarks"
  shows "main env =
     (fst (authenticate env) @ Stdout ''Fetching newsletter bookmarks...''
        # fst (get_newsletter_bookmarks env sess) @ fst (process env sess bookmarks),
      snd (process env sess bookmarks))"
  by (simp add: main_stages bind_io_snd_Inr [OF assms(1)] bind_io_snd_Inr [OF assms(2)])

subsection \<open>The token exchange\<close>

lemma get_access_token_non_200:
  assumes "status_code (token_response env) \<noteq> 200"
  shows "get_access_token env u pw ck cs =
     ([NewSession \<lparr>client_key = ck, client_secret = cs,
                    resource_owner_key = None, resource_owner_secret = None\<rparr>,
       Post \<lparr>client_key = ck, client_secret = cs,
              resource_owner_key = None, resource_owner_secret = None\<rparr>
         (INSTAPAPER_API_BASE @ ''/oauth/access_token'')
         [(''x_auth_username'', u), (''x_auth_password'', pw),
          (''x_auth_mode'', JStr ''client_auth'')],
       Stderr (''Error getting access token: '' @ str_int (status_code (token_response env))),
       Stderr (response_text (token_response env))],
      Inl (SysExit 1))"
  using assms by (simp add: get_access_token_def Let_def)

lemma get_access_token_200:
  assumes "status_code (token_response env) = 200"
  shows "get_access_token env u pw ck cs =
     ([NewSession \<lparr>client_key = ck, client_secret = cs,
                    resource_owner_key = None, resource_owner_secret = None\<rparr>,
       Post \<lparr>client_key = ck, client_secret = cs,
              resource_owner_key = None, resource_owner_secret = None\<rparr>
         (INSTAPAPER_API_BASE @ ''/oauth/access_token'')
         [(''x_auth_username'', u), (''x_auth_password'', pw),
          (''x_auth_mode'', JStr ''client_auth'')]],
      case py_dict (map (split_on CHR ''='') (split_on CHR ''&'' (response_text (token_response env))))
                   Map.empty of
        Inl e \<Rightarrow> Inl (Raise e)
      | Inr tokens \<Rightarrow>
          (case tokens ''oauth_token'' of
             None \<Rightarrow> Inl (Raise (KeyError ''oauth_token''))
           | Some tok \<Rightarrow>
               (case tokens ''oauth_token_secret'' of
                  None \<Rightarrow> Inl (Raise (KeyError ''oauth_token_secret''))
                | Some sec \<Rightarrow> Inr (tok, sec))))"
  using assms
  by (simp add: get_access_token_def Let_def bind_io_pair snd_lift raise_def return_io_def
      split: sum.splits option.splits)

lemma get_access_token_ok_trace:
  "snd (get_access_token env u pw ck cs) = Inr (tok, sec) \<Longrightarrow>
   fst (get_access_token env u pw ck cs) =
     [NewSession \<lparr>client_key = ck, client_secret = cs, resource_owner_key = None, resource_owner_secret = None\<rparr>,
      Post \<lparr>client_key = ck, client_secret = cs, resource_owner_key = None, resource_owner_secret = None\<rparr>
        (INSTAPAPER_API_BASE @ ''/oauth/access_token'')
        [(''x_auth_username'', u), (''x_auth_password'', pw), (''x_auth_mode'', JStr ''client_auth'')]]"
  by (auto simp: get_access_token_def Let_def bind_io_pair snd_lift split: if_splits sum.splits option.splits)

lemma authenticate_ok:
  assumes "snd (authenticate env) = Inr sess"
  shows "\<exists>u pw. fst (authenticate env) =
     [Stdout ''Authenticating with Instapaper...'',
      NewSession (sess\<lparr>resource_owner_key := None, resource_owner_secret := None\<rparr>),
      Post (sess\<lparr>resource_owner_key := None, resource_owner_secret := None\<rparr>)
        (INSTAPAPER_API_BASE @ ''/oauth/access_token'')
        [(''x_auth_username'', u), (''x_auth_password'', pw), (''x_auth_mode'', JStr ''client_auth'')],
      NewSession sess]"
proof (cases "snd (read_credentials env)")
  case (Inl a)
  then show ?thesis using assms by (simp add: authenticate_def bind_io_pair)
next
  case (Inr c)
  obtain ck cs u pw where c: "c = (ck, cs, u, pw)" by (cases c) auto
  note rc = read_credentials_ok_trace [OF Inr]
  show ?thesis
  proof (cases "snd (get_access_token env u pw ck cs)")
    case (Inl a)
    then show ?thesis using assms Inr c by (simp add: authenticate_def bind_io_pair)
  next
    case tok: (Inr p)
    obtain t1 t2 where p: "p = (t1, t2)" by (cases p) auto
    from tok p have ok: "snd (get_access_token env u pw ck cs) = Inr (t1, t2)" by simp
    show ?thesis
      using assms Inr c rc ok get_access_token_ok_trace [OF ok]
      by (auto simp: authenticate_def bind_io_pair Let_def)
  qed
qed

lemma authenticate_no_archive_request:
  assumes "snd (authenticate env) = Inr sess"
  shows "filter is_archive_request (fst (authenticate env)) = []"
  using authenticate_ok [OF assms] by auto

lemma split_on_nonempty [simp]: "split_on c s \<noteq> []"
  by (induction s) (simp_all add: Let_def)

lemma length_split_on: "length (split_on c s) = count_list s c + 1"
proof (induction s)
  case Nil
  then show ?case by simp
next
  case (Cons x xs)
  have "length (tl (split_on c xs)) = length (split_on c xs) - 1"
    by simp
  moreover have "length (split_on c xs) \<ge> 1"
    using split_on_nonempty [of c xs] by (cases "split_on c xs") simp_all
  ultimately show ?case using Cons by (simp add: Let_def)
qed

lemma hd_split_on: "hd (split_on c s) = takeWhile (\<lambda>x. x \<noteq> c) s"
  by (induction s) (simp_all add: Let_def)

lemma length_2_iff: "length p = 2 \<longleftrightarrow> (\<exists>k v. p = [k, v])"
  by (cases p; cases "tl p"; cases "tl (tl p)") auto

lemma py_dict_fails: "\<not> (\<forall>p\<in>set pss. length p = 2) \<Longrightarrow> py_dict pss m = Inl ValueError"
proof (induction pss arbitrary: m)
  case Nil
  then show ?case by simp
next
  case (Cons p pss)
  show ?case
  proof (cases "length p = 2")
    case True
    then obtain k v where p: "p = [k, v]" by (auto simp: length_2_iff)
    from Cons.prems True have "\<not> (\<forall>p\<in>set pss. length p = 2)" by simp
    from Cons.IH [OF this] show ?thesis by (simp add: p)
  next
    case False
    then show ?thesis
      by (cases p; cases "tl p"; cases "tl (tl p)") auto
  qed
qed

lemma py_dict_succeeds:
  "\<forall>p\<in>set pss. length p = 2 \<Longrightarrow>
   \<exists>m'. py_dict pss m = Inr m' \<and> dom m' = dom m \<union> hd ` set pss"
proof (induction pss arbitrary: m)
  case Nil
  then show ?case by simp
next
  case (Cons p pss)
  then obtain k v where p: "p = [k, v]" by (auto simp: length_2_iff)
  from Cons.prems have "\<forall>p\<in>set pss. length p = 2" by simp
  from Cons.IH [OF this, of "m(k \<mapsto> v)"] obtain m'
    where m': "py_dict pss (m(k \<mapsto> v)) = Inr m'" "dom m' = dom (m(k \<mapsto> v)) \<union> hd ` set pss"
    by blast
  have "py_dict (p # pss) m = Inr m'"
    using m'(1) by (simp add: p)
  moreover have "dom m' = dom m \<union> hd ` set (p # pss)"
    using m'(2) by (simp add: p)
  ultimately show ?case by blast
qed

lemma token_pairs_shape:
  "(\<forall>p\<in>set (map (split_on CHR ''='') (split_on CHR ''&'' body)). length p = 2)
     \<longleftrightarrow> (\<forall>seg\<in>set (split_on CHR ''&'' body). count_list seg CHR ''='' = 1)"
  by (simp add: length_split_on)

lemma token_pairs_keys:
  "hd ` set (map (split_on CHR ''='') (split_on CHR ''&'' body))
     = (\<lambda>seg. takeWhile (\<lambda>c. c \<noteq> CHR ''='') seg) ` set (split_on CHR ''&'' body)"
  by (simp add: image_image hd_split_on)

lemma token_parse_cases:
  assumes "status_code (token_response env) = 200"
  shows "(token_body_ok (response_text (token_response env)) \<longrightarrow>
            (\<exists>tok sec. snd (get_access_token env u pw ck cs) = Inr (tok, sec)))
       \<and> (\<not> token_body_ok (response_text (token_response env)) \<longrightarrow>
            snd (get_access_token env u pw ck cs) = Inl (Raise ValueError)
          \<or> snd (get_access_token env u pw ck cs) = Inl (Raise (KeyError ''oauth_token''))
          \<or> snd (get_access_token env u pw ck cs) = Inl (Raise (KeyError ''oauth_token_secret'')))"
proof (cases "\<forall>p\<in>set (map (split_on CHR ''='') (split_on CHR ''&'' (response_text (token_response env)))). length p = 2")
  case False
  have bad: "\<not> token_body_ok (response_text (token_response env))"
    using False unfolding token_pairs_shape by (simp add: token_body_ok_def)
  from py_dict_fails [OF False, of Map.empty] bad show ?thesis
    by (simp add: get_access_token_200 [OF assms])
next
  case True
  from py_dict_succeeds [OF True, of Map.empty] obtain tokens where
    t: "py_dict (map (split_on CHR ''='') (split_on CHR ''&'' (response_text (token_response env)))) Map.empty
          = Inr tokens"
    and d: "dom tokens = hd ` set (map (split_on CHR ''='') (split_on CHR ''&'' (response_text (token_response env))))"
    by auto
  have ok: "token_body_ok (response_text (token_response env))
          \<longleftrightarrow> ''oauth_token'' \<in> dom tokens \<and> ''oauth_token_secret'' \<in> dom tokens"
  proof -
    have key: "k \<in> (\<lambda>seg. takeWhile (\<lambda>c. c \<noteq> CHR ''='') seg)
                     ` set (split_on CHR ''&'' (response_text (token_response env)))
           \<longleftrightarrow> (\<exists>seg\<in>set (split_on CHR ''&'' (response_text (token_response env))).
                  takeWhile (\<lambda>c. c \<noteq> CHR ''='') seg = k)" for k
      by blast
    from True have "\<forall>seg\<in>set (split_on CHR ''&'' (response_text (token_response env))).
                     count_list seg CHR ''='' = 1"
      unfolding token_pairs_shape .
    then show ?thesis
      unfolding d token_pairs_keys key token_body_ok_def by blast
  qed
  show ?thesis
    unfolding ok
    by (auto simp: get_access_token_200 [OF assms] t split: option.splits)
qed

subsection \<open>The listing\<close>

lemma lister_non_200:
  "status_code (list_response env) \<noteq> 200 \<Longrightarrow>
   get_newsletter_bookmarks env s =
     ([Post s (INSTAPAPER_API_BASE @ ''/bookmarks/list'')
         [(''limit'', JInt 500), (''tag'', JStr ''newsletter'')],
       Stderr (''Error fetching bookmarks: '' @ str_int (status_code (list_response env))),
       Stderr (response_text (list_response env))],
      Inr (JArr []))"
  by (simp add: get_newsletter_bookmarks_def Let_def)

lemma lister_array:
  "status_code (list_response env) = 200 \<Longrightarrow> json_body (list_response env) = Some (JArr xs) \<Longrightarrow>
   get_newsletter_bookmarks env s =
     ([Post s (INSTAPAPER_API_BASE @ ''/bookmarks/list'')
         [(''limit'', JInt 500), (''tag'', JStr ''newsletter'')]],
      Inr (JArr (drop 1 xs)))"
  by (cases xs) (simp_all add: get_newsletter_bookmarks_def Let_def)

lemma lister_no_archive_request:
  "filter is_archive_request (fst (get_newsletter_bookmarks env s)) = []"
  by (simp add: get_newsletter_bookmarks_def Let_def bind_io_pair snd_lift
      split: option.splits sum.splits)

lemma load_config_list_response: "load_config (env\<lparr>list_response := r\<rparr>) = load_config env"
  by (simp add: load_config_def split: config_source.splits)

lemma get_access_token_list_response:
  "get_access_token (env\<lparr>list_response := r\<rparr>) u pw ck cs = get_access_token env u pw ck cs"
  by (simp add: get_access_token_def)

lemma authenticate_list_response [simp]: "authenticate (env\<lparr>list_response := r\<rparr>) = authenticate env"
  by (simp add: authenticate_def read_credentials_def load_config_list_response
      get_access_token_list_response)

lemma process_empty:
  "process env s (JArr []) =
     ([Stdout (''Found 0 bookmarks with '' @ [CHR 0x27] @ ''newsletter'' @ [CHR 0x27] @ '' tag''),
       Stdout ''No bookmarks to process''], Inr ())"
  by (simp add: process_def str_nat.simps digit_char_def)

subsection \<open>The selection\<close>




lemma select_old_empty: "select_old env (JArr []) = Inr []"
  by (simp add: select_old_def)

subsection \<open>The archive requests\<close>

lemma py_get_title: "subscript b k = Inr i \<Longrightarrow> py_get b ''title'' (JStr ''Untitled'') = Inr (title_of b)"
  by (cases b) (auto split: option.splits)

lemma outcomes_length [simp]: "length (outcomes env k ids) = length ids"
  by (simp add: outcomes_def)

lemma outcomes_nth:
  "j < length ids \<Longrightarrow> outcomes env k ids ! j = (archive_status env (k + j) (ids ! j) = 200)"
  by (simp add: outcomes_def)

lemma archive_loop_run:
  assumes "map (\<lambda>b. subscript b ''bookmark_id'') old = map Inr ids"
  shows "archive_loop env s old k a f =
     (concat (map (attempt_events env s) (zip [k..<k + length old] (zip old ids))),
      Inr (a + length (filter (\<lambda>ok. ok) (outcomes env k ids)),
           f + length (filter (\<lambda>ok. \<not> ok) (outcomes env k ids))))"
  using assms
proof (induction old arbitrary: k a f ids)
  case Nil
  then show ?case by (simp add: return_io_def outcomes_def)
next
  case (Cons b old)
  from Cons.prems obtain i ids' where ids: "ids = i # ids'" "subscript b ''bookmark_id'' = Inr i"
    "map (\<lambda>b. subscript b ''bookmark_id'') old = map Inr ids'"
    by (cases ids) auto
  from ids(3) have len: "length ids' = length old"
    by (metis length_map)
  have upt: "[k..<k + length (b # old)] = k # [Suc k..<Suc k + length old]"
    using upt_conv_Cons [of k "k + Suc (length old)"] by simp
  have out: "outcomes env k (i # ids') = (archive_status env k i = 200) # outcomes env (Suc k) ids'"
    using upt by (simp add: outcomes_def len)
  show ?case
    unfolding upt ids(1) out
    using ids(2) py_get_title [OF ids(2)] Cons.IH [OF ids(3), of "Suc k"]
    by (simp add: archive_bookmark_def attempt_events_def Let_def)
qed

lemma attempt_requests:
  "length old = length ids \<Longrightarrow>
   filter is_archive_request (concat (map (attempt_events env s) (zip [k..<k + length old] (zip old ids))))
     = map (\<lambda>i. Post s (INSTAPAPER_API_BASE @ ''/bookmarks/archive'') [(''bookmark_id'', i)]) ids"
proof (induction old arbitrary: k ids)
  case Nil
  then show ?case by simp
next
  case (Cons b old)
  then obtain i ids' where ids: "ids = i # ids'" "length old = length ids'"
    by (cases ids) auto
  have upt: "[k..<k + length (b # old)] = k # [Suc k..<Suc k + length old]"
    using upt_conv_Cons [of k "k + Suc (length old)"] by simp
  show ?case
    unfolding upt ids(1)
    using Cons.IH [OF ids(2), of "Suc k"] by (simp add: attempt_events_def)
qed

lemma failed_count_positive:
  "0 < length (filter (\<lambda>ok. \<not> ok) (outcomes env 0 ids))
     \<longleftrightarrow> (\<exists>j<length ids. archive_status env j (ids ! j) \<noteq> 200)"
proof -
  have "0 < length (filter (\<lambda>ok. \<not> ok) (outcomes env 0 ids))
          \<longleftrightarrow> (\<exists>ok\<in>set (outcomes env 0 ids). \<not> ok)"
    by (simp add: length_greater_0_conv filter_empty_conv)
  also have "\<dots> \<longleftrightarrow> (\<exists>j<length (outcomes env 0 ids). \<not> outcomes env 0 ids ! j)"
    by (metis in_set_conv_nth)
  also have "\<dots> \<longleftrightarrow> (\<exists>j<length ids. archive_status env j (ids ! j) \<noteq> 200)"
    using outcomes_nth [of _ ids env 0] by auto
  finally show ?thesis .
qed

lemma archive_all_run:
  assumes "archive_loop env s old 0 0 0 = (tr, Inr (a, f))"
  shows "archive_all env s old =
     (Stdout (''Found '' @ str_nat (length old) @ '' newsletters older than 7 days'')
        # (if old = [] then [Stdout ''No bookmarks to archive'']
           else tr @ [Stdout (summary_line a f)]),
      if old \<noteq> [] \<and> f > 0 then Inl (SysExit 1) else Inr ())"
  using assms by (simp add: archive_all_def)

lemma process_array:
  assumes "select_old env (JArr records) = Inr old"
      and "archive_loop env s old 0 0 0 = (tr, Inr (a, f))"
  shows "process env s (JArr records) =
     (Stdout (''Found '' @ str_nat (length records) @ '' bookmarks with '' @ [CHR 0x27]
               @ ''newsletter'' @ [CHR 0x27] @ '' tag'')
        # (if records = [] then [Stdout ''No bookmarks to process'']
           else Stdout (''Found '' @ str_nat (length old) @ '' newsletters older than 7 days'')
                  # (if old = [] then [Stdout ''No bookmarks to archive'']
                     else tr @ [Stdout (summary_line a f)])),
      if records \<noteq> [] \<and> old \<noteq> [] \<and> f > 0 then Inl (SysExit 1) else Inr ())"
  using assms(1) archive_all_run [OF assms(2)]
  by (cases "old = []"; cases "records = []") (simp_all add: process_def)

lemma main_run:
  assumes auth: "snd (authenticate env) = Inr sess"
      and listed: "snd (get_newsletter_bookmarks env sess) = Inr (JArr records)"
      and sel: "select_old env (JArr records) = Inr old"
      and ids: "map (\<lambda>b. subscript b ''bookmark_id'') old = map Inr ids"
  shows "main env =
     (fst (authenticate env) @ Stdout ''Fetching newsletter bookmarks...''
        # fst (get_newsletter_bookmarks env sess)
        @ Stdout (''Found '' @ str_nat (length records) @ '' bookmarks with '' @ [CHR 0x27]
               @ ''newsletter'' @ [CHR 0x27] @ '' tag'')
        # (if records = [] then [Stdout ''No bookmarks to process'']
           else Stdout (''Found '' @ str_nat (length old) @ '' newsletters older than 7 days'')
                  # (if old = [] then [Stdout ''No bookmarks to archive'']
                     else concat (map (attempt_events env sess) (zip [0..<length old] (zip old ids)))
                          @ [Stdout (summary_line
                                      (length (filter (\<lambda>ok. ok) (outcomes env 0 ids)))
                                      (length (filter (\<lambda>ok. \<not> ok) (outcomes env 0 ids))))])),
      if records \<noteq> [] \<and> old \<noteq> []
           \<and> 0 < length (filter (\<lambda>ok. \<not> ok) (outcomes env 0 ids))
      then Inl (SysExit 1) else Inr ())"
proof -
  have loop: "archive_loop env sess old 0 0 0 =
     (concat (map (attempt_events env sess) (zip [0..<length old] (zip old ids))),
      Inr (length (filter (\<lambda>ok. ok) (outcomes env 0 ids)),
           length (filter (\<lambda>ok. \<not> ok) (outcomes env 0 ids))))"
    using archive_loop_run [OF ids, of env sess 0 0 0] by simp
  show ?thesis
    unfolding main_after_listing [OF auth listed] process_array [OF sel loop]
    by simp
qed


subsection \<open>The sample runs\<close>

lemmas sample_defs = sample_env_def sample_config_def sample_session_def bookmark_def
  account_def listing_def scenario_A_def scenario_B_def scenario_D_def

lemmas run_defs = main_def load_config_def get_access_token_def get_newsletter_bookmarks_def
  archive_bookmark_def Let_def timedelta_days_def from_seconds_def min_timestamp_def
  max_timestamp_def str_nat.simps digit_char_def str_int_def summary_line_def

lemma sample_authenticate:
  "authenticate (sample_env\<lparr>list_response := r, archive_status := a\<rparr>) =
     ([Stdout ''Authenticating with Instapaper...'',
       NewSession (sample_session\<lparr>resource_owner_key := None, resource_owner_secret := None\<rparr>),
       Post (sample_session\<lparr>resource_owner_key := None, resource_owner_secret := None\<rparr>)
         (INSTAPAPER_API_BASE @ ''/oauth/access_token'')
         [(''x_auth_username'', JStr ''reader''), (''x_auth_password'', JStr []),
          (''x_auth_mode'', JStr ''client_auth'')],
       NewSession sample_session],
      Inr sample_session)"
  by (simp add: authenticate_def read_credentials_def load_config_def get_access_token_def
      sample_env_def sample_config_def sample_session_def Let_def)

section \<open>The claims\<close>




text \<open>
  Claim C2. Once an archive request has been made for every qualifying record, the
  process ends with status 1 if at least one of the replies was not a success, and with
  status 0 if all were; the summary is the last line printed. One qualifying bookmark
  whose request fails gives the summary "0 archived, 1 failed" and status 1.
\<close>

theorem exit_status_reflects_failures:
  assumes "snd (authenticate env) = Inr sess"
      and "snd (get_newsletter_bookmarks env sess) = Inr (JArr records)"
      and "select_old env (JArr records) = Inr old"
      and "map (\<lambda>b. subscript b ''bookmark_id'') old = map Inr ids"
  shows "exit_status (main env) =
           (if \<exists>j<length ids. archive_status env j (ids ! j) \<noteq> 200 then 1 else 0)
       \<and> filter is_archive_request (fst (main env)) =
           map (\<lambda>i. Post sess (INSTAPAPER_API_BASE @ ''/bookmarks/archive'') [(''bookmark_id'', i)]) ids
       \<and> (old \<noteq> [] \<longrightarrow>
            last (fst (main env)) =
              Stdout (summary_line (length (filter (\<lambda>ok. ok) (outcomes env 0 ids)))
                                   (length (filter (\<lambda>ok. \<not> ok) (outcomes env 0 ids)))))"
proof -
  note run = main_run [OF assms]
  from assms(4) have len: "length old = length ids"
    by (metis length_map)
  have empty: "records = [] \<Longrightarrow> ids = []"
    using assms(3) len by (simp add: select_old_empty)
  have status: "exit_status (main env) =
           (if \<exists>j<length ids. archive_status env j (ids ! j) \<noteq> 200 then 1 else 0)"
  proof (cases "records \<noteq> [] \<and> old \<noteq> []")
    case True
    then show ?thesis
      unfolding run using failed_count_positive [of env ids] by simp
  next
    case False
    then have "ids = []" using empty len by auto
    with False show ?thesis unfolding run by auto
  qed
  have reqs: "filter is_archive_request (fst (main env)) =
           map (\<lambda>i. Post sess (INSTAPAPER_API_BASE @ ''/bookmarks/archive'') [(''bookmark_id'', i)]) ids"
  proof (cases "records \<noteq> [] \<and> old \<noteq> []")
    case True
    then show ?thesis
      unfolding run
      using attempt_requests [OF len, of env sess 0] authenticate_no_archive_request [OF assms(1)]
      by (simp add: lister_no_archive_request)
  next
    case False
    then have "ids = []" using empty len by auto
    with False show ?thesis
      unfolding run
      using authenticate_no_archive_request [OF assms(1)]
      by (auto simp: lister_no_archive_request)
  qed
  have summary: "old \<noteq> [] \<Longrightarrow>
            last (fst (main env)) =
              Stdout (summary_line (length (filter (\<lambda>ok. ok) (outcomes env 0 ids)))
                                   (length (filter (\<lambda>ok. \<not> ok) (outcomes env 0 ids))))"
  proof -
    assume ne: "old \<noteq> []"
    then have "records \<noteq> []" using assms(3) by (auto simp: select_old_empty)
    with ne show ?thesis unfolding run by simp
  qed
  from status reqs summary show ?thesis by blast
qed

theorem exit_status_reflects_failures_witness:
  "snd (authenticate scenario_B) = Inr sample_session
   \<and> snd (get_newsletter_bookmarks scenario_B sample_session) = Inr (JArr [bookmark 1 ''Monday'' 10])
   \<and> select_old scenario_B (JArr [bookmark 1 ''Monday'' 10]) = Inr [bookmark 1 ''Monday'' 10]
   \<and> map (\<lambda>b. subscript b ''bookmark_id'') [bookmark 1 ''Monday'' 10] = map Inr [JInt 1]
   \<and> exit_status (main scenario_B) = 1
   \<and> filter is_archive_request (fst (main scenario_B)) =
       [Post sample_session (INSTAPAPER_API_BASE @ ''/bookmarks/archive'') [(''bookmark_id'', JInt 1)]]
   \<and> last (fst (main scenario_B)) = Stdout (CHR 0x0A # ''Summary: 0 archived, 1 failed'')"
proof -
  have h1: "snd (authenticate scenario_B) = Inr sample_session"
    using sample_authenticate [where r = "list_response scenario_B" and a = "archive_status scenario_B"]
    by (simp add: scenario_B_def)
  have h2: "snd (get_newsletter_bookmarks scenario_B sample_session)
              = Inr (JArr [bookmark 1 ''Monday'' 10])"
    using lister_array [of scenario_B "[account, bookmark 1 ''Monday'' 10]" sample_session]
    by (simp add: scenario_B_def listing_def)
  have h3: "select_old scenario_B (JArr [bookmark 1 ''Monday'' 10]) = Inr [bookmark 1 ''Monday'' 10]"
    by (simp add: select_old_def scenario_B_def sample_env_def bookmark_def timedelta_days_def
        from_seconds_def min_timestamp_def max_timestamp_def)
  have h4: "map (\<lambda>b. subscript b ''bookmark_id'') [bookmark 1 ''Monday'' 10] = map Inr [JInt 1]"
    by (simp add: bookmark_def)
  have st: "archive_status scenario_B = (\<lambda>k b. 500)"
    by (simp add: scenario_B_def)
  from exit_status_reflects_failures [OF h1 h2 h3 h4] h1 h2 h3 h4
  show ?thesis
    by (simp add: outcomes_def st summary_line_def str_nat.simps digit_char_def)
qed

text \<open>
  Claim C3. When the listing request is answered with a status other than 200, the lister
  writes two diagnostic lines to the error stream and returns the empty list; the process
  does not end there. The run prints that it found 0 bookmarks and that there is nothing
  to process, and ends with status 0: the same output and the same status as the run in
  which the listing holds the account object and no bookmark.
\<close>

theorem listing_failure_is_soft:
  assumes "status_code (list_response env) \<noteq> 200"
  shows "get_newsletter_bookmarks env s =
           ([Post s (INSTAPAPER_API_BASE @ ''/bookmarks/list'')
               [(''limit'', JInt 500), (''tag'', JStr ''newsletter'')],
             Stderr (''Error fetching bookmarks: '' @ str_int (status_code (list_response env))),
             Stderr (response_text (list_response env))],
            Inr (JArr []))
       \<and> (snd (authenticate env) = Inr sess \<longrightarrow>
            snd (main env) = Inr () \<and> exit_status (main env) = 0
          \<and> output_stream (main env) =
              [''Authenticating with Instapaper...'', ''Fetching newsletter bookmarks...'',
               ''Found 0 bookmarks with '' @ [CHR 0x27] @ ''newsletter'' @ [CHR 0x27] @ '' tag'',
               ''No bookmarks to process'']
          \<and> output_stream (main env) = output_stream (main (env\<lparr>list_response := listing [account]\<rparr>))
          \<and> exit_status (main env) = exit_status (main (env\<lparr>list_response := listing [account]\<rparr>)))"
proof (intro conjI impI)
  show l: "get_newsletter_bookmarks env s =
           ([Post s (INSTAPAPER_API_BASE @ ''/bookmarks/list'')
               [(''limit'', JInt 500), (''tag'', JStr ''newsletter'')],
             Stderr (''Error fetching bookmarks: '' @ str_int (status_code (list_response env))),
             Stderr (response_text (list_response env))],
            Inr (JArr []))" for s
    by (rule lister_non_200 [OF assms])
  assume auth: "snd (authenticate env) = Inr sess"
  from authenticate_ok [OF auth] obtain u pw where tr: "fst (authenticate env) =
     [Stdout ''Authenticating with Instapaper...'',
      NewSession (sess\<lparr>resource_owner_key := None, resource_owner_secret := None\<rparr>),
      Post (sess\<lparr>resource_owner_key := None, resource_owner_secret := None\<rparr>)
        (INSTAPAPER_API_BASE @ ''/oauth/access_token'')
        [(''x_auth_username'', u), (''x_auth_password'', pw), (''x_auth_mode'', JStr ''client_auth'')],
      NewSession sess]" by blast
  have run: "main env = (fst (authenticate env) @ Stdout ''Fetching newsletter bookmarks...''
        # fst (get_newsletter_bookmarks env sess) @ fst (process env sess (JArr [])),
      snd (process env sess (JArr [])))"
    by (rule main_after_listing [OF auth]) (simp add: l)
  let ?env' = "env\<lparr>list_response := listing [account]\<rparr>"
  have l': "get_newsletter_bookmarks ?env' sess =
     ([Post sess (INSTAPAPER_API_BASE @ ''/bookmarks/list'')
         [(''limit'', JInt 500), (''tag'', JStr ''newsletter'')]], Inr (JArr (drop 1 [account])))"
    by (rule lister_array) (simp_all add: listing_def)
  have run': "main ?env' = (fst (authenticate ?env') @ Stdout ''Fetching newsletter bookmarks...''
        # fst (get_newsletter_bookmarks ?env' sess) @ fst (process ?env' sess (JArr [])),
      snd (process ?env' sess (JArr [])))"
    by (rule main_after_listing) (simp_all add: auth l')
  show "snd (main env) = Inr ()" by (simp add: run process_empty)
  show "exit_status (main env) = 0" by (simp add: run process_empty)
  show "output_stream (main env) =
              [''Authenticating with Instapaper...'', ''Fetching newsletter bookmarks...'',
               ''Found 0 bookmarks with '' @ [CHR 0x27] @ ''newsletter'' @ [CHR 0x27] @ '' tag'',
               ''No bookmarks to process'']"
    by (simp add: run process_empty l tr output_stream_def)
  show "output_stream (main env) = output_stream (main ?env')"
    by (simp add: run run' process_empty l l' tr output_stream_def)
  show "exit_status (main env) = exit_status (main ?env')"
    by (simp add: run run' process_empty)
qed

theorem listing_failure_is_soft_witness:
  "status_code (list_response scenario_D) \<noteq> 200
   \<and> snd (authenticate scenario_D) = Inr sample_session
   \<and> get_newsletter_bookmarks scenario_D sample_session =
       ([Post sample_session (INSTAPAPER_API_BASE @ ''/bookmarks/list'')
           [(''limit'', JInt 500), (''tag'', JStr ''newsletter'')],
         Stderr ''Error fetching bookmarks: 500'',
         Stderr ''Internal Server Error''],
        Inr (JArr []))
   \<and> exit_status (main scenario_D) = 0
   \<and> output_stream (main scenario_D) =
       [''Authenticating with Instapaper...'', ''Fetching newsletter bookmarks...'',
        ''Found 0 bookmarks with '' @ [CHR 0x27] @ ''newsletter'' @ [CHR 0x27] @ '' tag'',
        ''No bookmarks to process'']"
proof -
  have h1: "status_code (list_response scenario_D) \<noteq> 200"
    by (simp add: scenario_D_def sample_env_def)
  have h2: "snd (authenticate scenario_D) = Inr sample_session"
    using sample_authenticate [where r = "list_response scenario_D" and a = "archive_status sample_env"]
    by (simp add: scenario_D_def)
  have msg: "str_int (status_code (list_response scenario_D)) = ''500''"
      "response_text (list_response scenario_D) = ''Internal Server Error''"
    by (simp_all add: scenario_D_def sample_env_def str_int_def str_nat.simps digit_char_def)
  from listing_failure_is_soft [OF h1, of sample_session sample_session] h1 h2 msg
  show ?thesis by simp
qed

text \<open>
  Claim C4. When the configuration file is absent, is not JSON, or lacks one of
  \<open>consumer_key\<close>, \<open>consumer_secret\<close> and \<open>username\<close>, the run ends with status 1, with
  something on the error stream, and without any request. For an absent file the error
  stream holds the three lines the loader prints before it exits. In the other two cases
  an exception leaves \<open>main\<close> and the error stream holds its traceback: \<open>JSONDecodeError\<close>
  from the loader, or \<open>KeyError\<close> for a required field that a JSON object lacks
  (\<open>TypeError\<close> when the file holds JSON that is not an object).
\<close>

theorem bad_configuration_is_fatal:
  assumes "config_file env = NoFile \<or> config_file env = BadJson
         \<or> (\<exists>config. config_file env = Json config
               \<and> (\<exists>k\<in>set required_fields. \<forall>v. subscript config k \<noteq> Inr v))"
  shows "exit_status (main env) = 1
       \<and> filter is_post (fst (main env)) = []
       \<and> error_stream (main env) \<noteq> []
       \<and> (config_file env = NoFile \<longrightarrow>
            main env =
              ([Stderr (''Error: Configuration file not found at '' @ config_path env),
                Stderr ''Please create instapaper_config.json with your credentials.'',
                Stderr ''See instapaper_config.example.json for format.''],
               Inl (SysExit 1)))
       \<and> (config_file env = BadJson \<longrightarrow>
            main env = ([], Inl (Raise JSONDecodeError))
          \<and> error_stream (main env) = [Traceback JSONDecodeError])
       \<and> (\<forall>config. config_file env = Json config \<longrightarrow>
            (\<exists>k\<in>set required_fields.
               main env = ([], Inl (Raise (case config of JObj kvs \<Rightarrow> KeyError k | _ \<Rightarrow> TypeError)))
             \<and> error_stream (main env)
                 = [Traceback (case config of JObj kvs \<Rightarrow> KeyError k | _ \<Rightarrow> TypeError)]
             \<and> (\<forall>v. subscript config k \<noteq> Inr v)))"
proof -
  consider (absent) "config_file env = NoFile" | (malformed) "config_file env = BadJson"
    | (missing) config where "config_file env = Json config"
        "\<exists>k\<in>set required_fields. \<forall>v. subscript config k \<noteq> Inr v"
    using assms by blast
  then show ?thesis
  proof cases
    case absent
    note rc = read_credentials_no_file [OF absent]
    have "main env = (fst (read_credentials env), Inl (SysExit 1))"
      by (rule main_credentials_failed) (simp add: rc)
    then show ?thesis using absent by (simp add: rc)
  next
    case malformed
    note rc = read_credentials_bad_json [OF malformed]
    have "main env = (fst (read_credentials env), Inl (Raise JSONDecodeError))"
      by (rule main_credentials_failed) (simp add: rc)
    then show ?thesis using malformed by (simp add: rc)
  next
    case missing
    from read_credentials_missing_field [OF missing] obtain k where k: "k \<in> set required_fields"
      "read_credentials env =
             ([], Inl (Raise (case config of JObj kvs \<Rightarrow> KeyError k | _ \<Rightarrow> TypeError)))"
      "\<forall>v. subscript config k \<noteq> Inr v"
      by blast
    have run: "main env = (fst (read_credentials env),
                 Inl (Raise (case config of JObj kvs \<Rightarrow> KeyError k | _ \<Rightarrow> TypeError)))"
      by (rule main_credentials_failed) (simp add: k(2))
    have "main env = ([], Inl (Raise (case config of JObj kvs \<Rightarrow> KeyError k | _ \<Rightarrow> TypeError)))"
      using run by (simp add: k(2))
    with k(1,3) missing(1) show ?thesis
      by auto
  qed
qed

theorem bad_configuration_is_fatal_witness:
  "(\<exists>config. config_file (sample_env\<lparr>config_file :=
        Json (JObj [(''consumer_key'', JStr ''ck''), (''username'', JStr ''reader'')])\<rparr>) = Json config
       \<and> (\<exists>k\<in>set required_fields. \<forall>v. subscript config k \<noteq> Inr v))
   \<and> main (sample_env\<lparr>config_file :=
        Json (JObj [(''consumer_key'', JStr ''ck''), (''username'', JStr ''reader'')])\<rparr>)
       = ([], Inl (Raise (KeyError ''consumer_secret'')))
   \<and> exit_status (main (sample_env\<lparr>config_file :=
        Json (JObj [(''consumer_key'', JStr ''ck''), (''username'', JStr ''reader'')])\<rparr>)) = 1
   \<and> config_file (sample_env\<lparr>config_file := NoFile\<rparr>) = NoFile
   \<and> exit_status (main (sample_env\<lparr>config_file := NoFile\<rparr>)) = 1
   \<and> filter is_post (fst (main (sample_env\<lparr>config_file := NoFile\<rparr>))) = []
   \<and> error_stream (main (sample_env\<lparr>config_file := NoFile\<rparr>)) =
       [Line ''Error: Configuration file not found at /opt/instapaper/instapaper_config.json'',
        Line ''Please create instapaper_config.json with your credentials.'',
        Line ''See instapaper_config.example.json for format.'']
   \<and> config_file (sample_env\<lparr>config_file := BadJson\<rparr>) = BadJson
   \<and> exit_status (main (sample_env\<lparr>config_file := BadJson\<rparr>)) = 1
   \<and> error_stream (main (sample_env\<lparr>config_file := BadJson\<rparr>)) = [Traceback JSONDecodeError]"
proof -
  let ?cfg = "JObj [(''consumer_key'', JStr ''ck''), (''username'', JStr ''reader'')]"
  let ?e1 = "sample_env\<lparr>config_file := Json ?cfg\<rparr>"
  let ?e2 = "sample_env\<lparr>config_file := NoFile\<rparr>"
  let ?e3 = "sample_env\<lparr>config_file := BadJson\<rparr>"
  have h1: "\<exists>config. config_file ?e1 = Json config
       \<and> (\<exists>k\<in>set required_fields. \<forall>v. subscript config k \<noteq> Inr v)"
    by (simp add: required_fields_def)
  have h2: "config_file ?e2 = NoFile" by simp
  have h3: "config_file ?e3 = BadJson" by simp
  have c1: "config_file ?e1 = NoFile \<or> config_file ?e1 = BadJson
         \<or> (\<exists>config. config_file ?e1 = Json config
               \<and> (\<exists>k\<in>set required_fields. \<forall>v. subscript config k \<noteq> Inr v))"
    using h1 by blast
  have c2: "config_file ?e2 = NoFile \<or> config_file ?e2 = BadJson
         \<or> (\<exists>config. config_file ?e2 = Json config
               \<and> (\<exists>k\<in>set required_fields. \<forall>v. subscript config k \<noteq> Inr v))"
    using h2 by blast
  have c3: "config_file ?e3 = NoFile \<or> config_file ?e3 = BadJson
         \<or> (\<exists>config. config_file ?e3 = Json config
               \<and> (\<exists>k\<in>set required_fields. \<forall>v. subscript config k \<noteq> Inr v))"
    using h3 by blast
  have path: "config_path ?e2 = ''/opt/instapaper/instapaper_config.json''"
    by (simp add: sample_env_def)
  from bad_configuration_is_fatal [OF c1] have r1:
    "main ?e1 = ([], Inl (Raise (KeyError ''consumer_secret''))) \<and> exit_status (main ?e1) = 1"
    by (auto simp: required_fields_def)
  from bad_configuration_is_fatal [OF c2] h2 path have r2:
    "exit_status (main ?e2) = 1 \<and> filter is_post (fst (main ?e2)) = []
     \<and> error_stream (main ?e2) =
       [Line ''Error: Configuration file not found at /opt/instapaper/instapaper_config.json'',
        Line ''Please create instapaper_config.json with your credentials.'',
        Line ''See instapaper_config.example.json for format.'']"
    by simp
  from bad_configuration_is_fatal [OF c3] h3 have r3:
    "exit_status (main ?e3) = 1 \<and> error_stream (main ?e3) = [Traceback JSONDecodeError]"
    by simp
  from h1 h2 h3 r1 r2 r3 show ?thesis by blast
qed

text \<open>
  Claim C5. When the token request is answered with a status other than 200, the process
  ends at once with status 1: it writes the status and the body of the reply to the error
  stream and exits. No session carrying a token pair is constructed, and the token
  request is the only request of the run. The request is made once the four credentials
  have been read.
\<close>

theorem token_failure_is_fatal:
  assumes "snd (read_credentials env) = Inr (ck, cs, u, pw)"
      and "status_code (token_response env) \<noteq> 200"
  shows "main env =
           ([Stdout ''Authenticating with Instapaper...'',
             NewSession \<lparr>client_key = ck, client_secret = cs,
                          resource_owner_key = None, resource_owner_secret = None\<rparr>,
             Post \<lparr>client_key = ck, client_secret = cs,
                    resource_owner_key = None, resource_owner_secret = None\<rparr>
               (INSTAPAPER_API_BASE @ ''/oauth/access_token'')
               [(''x_auth_username'', u), (''x_auth_password'', pw),
                (''x_auth_mode'', JStr ''client_auth'')],
             Stderr (''Error getting access token: '' @ str_int (status_code (token_response env))),
             Stderr (response_text (token_response env))],
            Inl (SysExit 1))
       \<and> exit_status (main env) = 1
       \<and> last (error_stream (main env)) = Line (response_text (token_response env))
       \<and> filter is_token_session (fst (main env)) = []
       \<and> length (filter is_post (fst (main env))) = 1"
proof -
  have auth: "authenticate env =
           ([Stdout ''Authenticating with Instapaper...'',
             NewSession \<lparr>client_key = ck, client_secret = cs,
                          resource_owner_key = None, resource_owner_secret = None\<rparr>,
             Post \<lparr>client_key = ck, client_secret = cs,
                    resource_owner_key = None, resource_owner_secret = None\<rparr>
               (INSTAPAPER_API_BASE @ ''/oauth/access_token'')
               [(''x_auth_username'', u), (''x_auth_password'', pw),
                (''x_auth_mode'', JStr ''client_auth'')],
             Stderr (''Error getting access token: '' @ str_int (status_code (token_response env))),
             Stderr (response_text (token_response env))],
            Inl (SysExit 1))"
    unfolding main_after_credentials [OF assms(1)] get_access_token_non_200 [OF assms(2)]
    by simp
  have run: "main env = (fst (authenticate env), Inl (SysExit 1))"
    using main_auth_failed [of env "SysExit 1"] auth by simp
  show ?thesis
    unfolding run auth by simp
qed

theorem token_failure_is_fatal_witness:
  "snd (read_credentials
          (sample_env\<lparr>token_response :=
             \<lparr>status_code = 401, response_text = ''Invalid xAuth credentials.'', json_body = None\<rparr>\<rparr>))
     = Inr (JStr ''ck'', JStr ''cs'', JStr ''reader'', JStr [])
   \<and> status_code (token_response
          (sample_env\<lparr>token_response :=
             \<lparr>status_code = 401, response_text = ''Invalid xAuth credentials.'', json_body = None\<rparr>\<rparr>))
       \<noteq> 200
   \<and> error_stream (main
          (sample_env\<lparr>token_response :=
             \<lparr>status_code = 401, response_text = ''Invalid xAuth credentials.'', json_body = None\<rparr>\<rparr>))
       = [Line ''Error getting access token: 401'', Line ''Invalid xAuth credentials.'']
   \<and> exit_status (main
          (sample_env\<lparr>token_response :=
             \<lparr>status_code = 401, response_text = ''Invalid xAuth credentials.'', json_body = None\<rparr>\<rparr>))
       = 1"
proof -
  let ?env = "sample_env\<lparr>token_response :=
             \<lparr>status_code = 401, response_text = ''Invalid xAuth credentials.'', json_body = None\<rparr>\<rparr>"
  have h1: "snd (read_credentials ?env) = Inr (JStr ''ck'', JStr ''cs'', JStr ''reader'', JStr [])"
    by (simp add: read_credentials_def load_config_def sample_env_def sample_config_def)
  have h2: "status_code (token_response ?env) \<noteq> 200"
    by simp
  have msg: "str_int (status_code (token_response ?env)) = ''401''"
    by (simp add: str_int_def str_nat.simps digit_char_def)
  from token_failure_is_fatal [OF h1 h2] h1 h2 msg
  show ?thesis by simp
qed

text \<open>
  Claim C6. When the listing request is answered with status 200 and the body is a JSON
  array, the lister returns the array without its first element, whatever that element
  is: the elements from position 1 on, and the empty list for an array of at most one
  element.
\<close>

theorem lister_drops_first_element:
  assumes "status_code (list_response env) = 200"
      and "json_body (list_response env) = Some (JArr xs)"
  shows "snd (get_newsletter_bookmarks env s) = Inr (JArr (drop 1 xs))
       \<and> (\<forall>x ys. xs = x # ys \<longrightarrow> snd (get_newsletter_bookmarks env s) = Inr (JArr ys))
       \<and> (length xs \<le> 1 \<longrightarrow> snd (get_newsletter_bookmarks env s) = Inr (JArr []))"
  using lister_array [OF assms, of s] by auto

theorem lister_drops_first_element_witness:
  "status_code (list_response scenario_A) = 200
   \<and> json_body (list_response scenario_A)
       = Some (JArr [account, bookmark 1 ''Monday'' 10, bookmark 2 ''Tuesday'' 395200,
                     bookmark 3 ''Wednesday'' 395199])
   \<and> snd (get_newsletter_bookmarks scenario_A sample_session)
       = Inr (JArr [bookmark 1 ''Monday'' 10, bookmark 2 ''Tuesday'' 395200,
                    bookmark 3 ''Wednesday'' 395199])"
proof -
  have h1: "status_code (list_response scenario_A) = 200"
    by (simp add: scenario_A_def sample_env_def listing_def)
  have h2: "json_body (list_response scenario_A)
       = Some (JArr [account, bookmark 1 ''Monday'' 10, bookmark 2 ''Tuesday'' 395200,
                     bookmark 3 ''Wednesday'' 395199])"
    by (simp add: scenario_A_def sample_env_def listing_def)
  from lister_drops_first_element [OF h1 h2, of sample_session] h1 h2
  show ?thesis by simp
qed

text \<open>
  Claim C7. When the listing yields no bookmark, the process prints "No bookmarks to
  process" as its last line, makes no archive request and ends with status 0. In the run
  of scenario A (three bookmarks listed, two of them older than the cutoff, both archived
  with success) the last line printed is the summary "2 archived, 0 failed" and the
  status is 0.
\<close>

theorem nothing_listed_and_full_run:
  "(snd (authenticate env) = Inr sess \<longrightarrow>
    snd (get_newsletter_bookmarks env sess) = Inr (JArr []) \<longrightarrow>
      last (output_stream (main env)) = ''No bookmarks to process''
    \<and> filter is_archive_request (fst (main env)) = []
    \<and> snd (main env) = Inr ()
    \<and> exit_status (main env) = 0)
   \<and> output_stream (main scenario_A) =
       [''Authenticating with Instapaper...'',
        ''Fetching newsletter bookmarks...'',
        ''Found 3 bookmarks with '' @ [CHR 0x27] @ ''newsletter'' @ [CHR 0x27] @ '' tag'',
        ''Found 2 newsletters older than 7 days'',
        check_mark @ '' Archived: Monday'',
        check_mark @ '' Archived: Wednesday'',
        CHR 0x0A # ''Summary: 2 archived, 0 failed'']
   \<and> filter is_archive_request (fst (main scenario_A)) =
       [Post sample_session (INSTAPAPER_API_BASE @ ''/bookmarks/archive'') [(''bookmark_id'', JInt 1)],
        Post sample_session (INSTAPAPER_API_BASE @ ''/bookmarks/archive'') [(''bookmark_id'', JInt 3)]]
   \<and> exit_status (main scenario_A) = 0"
proof (intro conjI impI)
  assume auth: "snd (authenticate env) = Inr sess"
    and listed: "snd (get_newsletter_bookmarks env sess) = Inr (JArr [])"
  have run: "main env =
     (fst (authenticate env) @ Stdout ''Fetching newsletter bookmarks...''
        # fst (get_newsletter_bookmarks env sess) @ fst (process env sess (JArr [])),
      snd (process env sess (JArr [])))"
    by (rule main_after_listing [OF auth listed])
  show "last (output_stream (main env)) = ''No bookmarks to process''"
    by (simp add: run process_empty output_stream_def)
  show "filter is_archive_request (fst (main env)) = []"
    using authenticate_no_archive_request [OF auth]
    by (simp add: run process_empty lister_no_archive_request)
  show "snd (main env) = Inr ()"
    by (simp add: run process_empty)
  show "exit_status (main env) = 0"
    by (simp add: run process_empty)
next
  have run: "main scenario_A =
     ([Stdout ''Authenticating with Instapaper...'',
       NewSession (sample_session\<lparr>resource_owner_key := None, resource_owner_secret := None\<rparr>),
       Post (sample_session\<lparr>resource_owner_key := None, resource_owner_secret := None\<rparr>)
         (INSTAPAPER_API_BASE @ ''/oauth/access_token'')
         [(''x_auth_username'', JStr ''reader''), (''x_auth_password'', JStr []),
          (''x_auth_mode'', JStr ''client_auth'')],
       NewSession sample_session,
       Stdout ''Fetching newsletter bookmarks...'',
       Post sample_session (INSTAPAPER_API_BASE @ ''/bookmarks/list'')
         [(''limit'', JInt 500), (''tag'', JStr ''newsletter'')],
       Stdout (''Found 3 bookmarks with '' @ [CHR 0x27] @ ''newsletter'' @ [CHR 0x27] @ '' tag''),
       Stdout ''Found 2 newsletters older than 7 days'',
       Post sample_session (INSTAPAPER_API_BASE @ ''/bookmarks/archive'') [(''bookmark_id'', JInt 1)],
       Stdout (check_mark @ '' Archived: Monday''),
       Post sample_session (INSTAPAPER_API_BASE @ ''/bookmarks/archive'') [(''bookmark_id'', JInt 3)],
       Stdout (check_mark @ '' Archived: Wednesday''),
       Stdout (CHR 0x0A # ''Summary: 2 archived, 0 failed'')],
      Inr ())"
    by (simp add: run_defs sample_defs)
  show "output_stream (main scenario_A) =
       [''Authenticating with Instapaper...'',
        ''Fetching newsletter bookmarks...'',
        ''Found 3 bookmarks with '' @ [CHR 0x27] @ ''newsletter'' @ [CHR 0x27] @ '' tag'',
        ''Found 2 newsletters older than 7 days'',
        check_mark @ '' Archived: Monday'',
        check_mark @ '' Archived: Wednesday'',
        CHR 0x0A # ''Summary: 2 archived, 0 failed'']"
    by (simp add: run output_stream_def)
  show "filter is_archive_request (fst (main scenario_A)) =
       [Post sample_session (INSTAPAPER_API_BASE @ ''/bookmarks/archive'') [(''bookmark_id'', JInt 1)],
        Post sample_session (INSTAPAPER_API_BASE @ ''/bookmarks/archive'') [(''bookmark_id'', JInt 3)]]"
    by (simp add: run)
  show "exit_status (main scenario_A) = 0"
    by (simp add: run)
qed

theorem nothing_listed_and_full_run_witness:
  "snd (authenticate sample_env) = Inr sample_session
   \<and> snd (get_newsletter_bookmarks sample_env sample_session) = Inr (JArr [])
   \<and> last (output_stream (main sample_env)) = ''No bookmarks to process''
   \<and> filter is_archive_request (fst (main sample_env)) = []
   \<and> exit_status (main sample_env) = 0"
proof -
  have h1: "snd (authenticate sample_env) = Inr sample_session"
    using sample_authenticate [where r = "list_response sample_env" and a = "archive_status sample_env"]
    by simp
  have h2: "snd (get_newsletter_bookmarks sample_env sample_session) = Inr (JArr [])"
    using lister_array [of sample_env "[account]" sample_session]
    by (simp add: sample_env_def listing_def)
  from nothing_listed_and_full_run [of sample_env sample_session] h1 h2
  show ?thesis by simp
qed

text \<open>
  Claim C8. The archiving loop makes exactly one request for every qualifying record, in
  the order of the filtered list, with nothing repeated and nothing left out; each request
  is followed at once by its progress line, which shows the record's title, or
  \<open>Untitled\<close> for a record without one; and when the loop ends the two counters have
  grown, together, by the number of qualifying records. The records are bookmark
  records: each has a \<open>bookmark_id\<close>.
\<close>

theorem archive_loop_one_request_per_record:
  assumes "map (\<lambda>b. subscript b ''bookmark_id'') old = map Inr ids"
  shows "\<exists>tr a' f'.
           archive_loop env s old k a f = (tr, Inr (a', f'))
         \<and> tr = concat (map (attempt_events env s) (zip [k..<k + length old] (zip old ids)))
         \<and> filter is_post tr =
             map (\<lambda>i. Post s (INSTAPAPER_API_BASE @ ''/bookmarks/archive'') [(''bookmark_id'', i)]) ids
         \<and> a' = a + length (filter (\<lambda>ok. ok) (outcomes env k ids))
         \<and> f' = f + length (filter (\<lambda>ok. \<not> ok) (outcomes env k ids))
         \<and> a' + f' = a + f + length old"
proof -
  from assms have len: "length old = length ids"
    by (metis length_map)
  have posts: "filter is_post (concat (map (attempt_events env s) (zip [k..<k + length old] (zip old ids))))
      = map (\<lambda>i. Post s (INSTAPAPER_API_BASE @ ''/bookmarks/archive'') [(''bookmark_id'', i)]) ids"
    using len
  proof (induction old arbitrary: k ids)
    case Nil
    then show ?case by simp
  next
    case (Cons b old)
    then obtain i ids' where ids: "ids = i # ids'" "length old = length ids'"
      by (cases ids) auto
    have upt: "[k..<k + length (b # old)] = k # [Suc k..<Suc k + length old]"
      using upt_conv_Cons [of k "k + Suc (length old)"] by simp
    show ?case
      unfolding upt ids(1)
      using Cons.IH [OF ids(2), of "Suc k"] by (simp add: attempt_events_def)
  qed
  have total: "length (filter (\<lambda>ok. ok) (outcomes env k ids))
             + length (filter (\<lambda>ok. \<not> ok) (outcomes env k ids)) = length old"
    using sum_length_filter_compl [of "\<lambda>ok. ok" "outcomes env k ids"] len by simp
  show ?thesis
    using archive_loop_run [OF assms, of env s k a f] posts total by simp
qed

theorem archive_loop_one_request_per_record_witness:
  "map (\<lambda>b. subscript b ''bookmark_id'')
       [bookmark 1 ''Monday'' 10, JObj [(''bookmark_id'', JInt 9), (''time'', JInt 20)]]
     = map Inr [JInt 1, JInt 9]
   \<and> archive_loop (sample_env\<lparr>archive_status := (\<lambda>k b. if k = 0 then 200 else 503)\<rparr>)
        sample_session
        [bookmark 1 ''Monday'' 10, JObj [(''bookmark_id'', JInt 9), (''time'', JInt 20)]] 0 0 0
     = ([Post sample_session (INSTAPAPER_API_BASE @ ''/bookmarks/archive'') [(''bookmark_id'', JInt 1)],
         Stdout (check_mark @ '' Archived: Monday''),
         Post sample_session (INSTAPAPER_API_BASE @ ''/bookmarks/archive'') [(''bookmark_id'', JInt 9)],
         Stderr (ballot_x @ '' Failed to archive: Untitled'')],
        Inr (1, 1))"
proof -
  have h: "map (\<lambda>b. subscript b ''bookmark_id'')
       [bookmark 1 ''Monday'' 10, JObj [(''bookmark_id'', JInt 9), (''time'', JInt 20)]]
     = map Inr [JInt 1, JInt 9]"
    by (simp add: bookmark_def)
  have upt: "[0..<2] = [0, Suc 0]"
    by (simp add: upt_rec)
  from archive_loop_one_request_per_record [OF h,
      of "sample_env\<lparr>archive_status := (\<lambda>k b. if k = 0 then 200 else 503)\<rparr>" sample_session 0 0 0]
    h upt
  show ?thesis
    by (auto simp: attempt_events_def outcomes_def bookmark_def)
qed

text \<open>
  Claim C9. An archive attempt counts as a success exactly when the status code of the
  reply is 200. Every other status, 201 and 204 among them, counts as a failure.
\<close>

theorem archive_success_iff_status_200:
  "(snd (archive_bookmark env s k i) = Inr True \<longleftrightarrow> archive_status env k i = 200)
   \<and> (snd (archive_bookmark env s k i) = Inr False \<longleftrightarrow> archive_status env k i \<noteq> 200)
   \<and> (archive_status env k i = 201 \<or> archive_status env k i = 204 \<longrightarrow>
        snd (archive_bookmark env s k i) = Inr False)
   \<and> (subscript b ''bookmark_id'' = Inr i \<longrightarrow>
        snd (archive_loop env s [b] k a f) =
          Inr (if archive_status env k i = 200 then (a + 1, f) else (a, f + 1)))"
proof (intro conjI impI)
  assume b: "subscript b ''bookmark_id'' = Inr i"
  show "snd (archive_loop env s [b] k a f) =
          Inr (if archive_status env k i = 200 then (a + 1, f) else (a, f + 1))"
    using b py_get_title [OF b] by (simp add: archive_bookmark_def Let_def)
qed (auto simp: archive_bookmark_def Let_def)

theorem archive_success_iff_status_200_witness:
  "archive_status (sample_env\<lparr>archive_status := (\<lambda>k b. 204)\<rparr>) 0 (JInt 1) = 204
   \<and> subscript (bookmark 1 ''Monday'' 10) ''bookmark_id'' = Inr (JInt 1)
   \<and> snd (archive_bookmark (sample_env\<lparr>archive_status := (\<lambda>k b. 204)\<rparr>) sample_session 0 (JInt 1))
       = Inr False
   \<and> snd (archive_loop (sample_env\<lparr>archive_status := (\<lambda>k b. 204)\<rparr>) sample_session
             [bookmark 1 ''Monday'' 10] 0 0 0)
       = Inr (0, 1)"
proof -
  have h1: "archive_status (sample_env\<lparr>archive_status := (\<lambda>k b. 204)\<rparr>) 0 (JInt 1) = 204"
    by simp
  have h2: "subscript (bookmark 1 ''Monday'' 10) ''bookmark_id'' = Inr (JInt 1)"
    by (simp add: bookmark_def)
  from archive_success_iff_status_200
      [of "sample_env\<lparr>archive_status := (\<lambda>k b. 204)\<rparr>" sample_session 0 "JInt 1"
          "bookmark 1 ''Monday'' 10" 0 0]
    h1 h2
  show ?thesis by simp
qed

text \<open>
  Claim C10. A token reply with status 200 is parsed only in part of the cases. The
  tokens are obtained exactly when every piece of the body between \<open>&\<close> holds exactly
  one \<open>=\<close> and both \<open>oauth_token\<close> and \<open>oauth_token_secret\<close> occur as keys. For every
  other body an exception (\<open>ValueError\<close> or \<open>KeyError\<close>) leaves \<open>main\<close> right after the
  token request: the script prints no diagnostic line and does not call \<open>sys.exit\<close>, and
  the error stream holds the traceback of the exception only.
\<close>

theorem token_body_parsing_is_partial:
  assumes "snd (read_credentials env) = Inr (ck, cs, u, pw)"
      and "status_code (token_response env) = 200"
  shows "((\<exists>tok sec. snd (get_access_token env u pw ck cs) = Inr (tok, sec))
            \<longleftrightarrow> token_body_ok (response_text (token_response env)))
       \<and> (\<not> token_body_ok (response_text (token_response env)) \<longrightarrow>
            (\<exists>e. main env =
                   ([Stdout ''Authenticating with Instapaper...'',
                     NewSession \<lparr>client_key = ck, client_secret = cs,
                                  resource_owner_key = None, resource_owner_secret = None\<rparr>,
                     Post \<lparr>client_key = ck, client_secret = cs,
                            resource_owner_key = None, resource_owner_secret = None\<rparr>
                       (INSTAPAPER_API_BASE @ ''/oauth/access_token'')
                       [(''x_auth_username'', u), (''x_auth_password'', pw),
                        (''x_auth_mode'', JStr ''client_auth'')]],
                    Inl (Raise e))
                \<and> (e = ValueError \<or> e = KeyError ''oauth_token''
                      \<or> e = KeyError ''oauth_token_secret'')
                \<and> error_stream (main env) = [Traceback e])
          \<and> concat (map stderr_line (fst (main env))) = []
          \<and> (\<forall>n. snd (main env) \<noteq> Inl (SysExit n)))"
proof (intro conjI impI)
  note cases = token_parse_cases [OF assms(2), of u pw ck cs]
  show "(\<exists>tok sec. snd (get_access_token env u pw ck cs) = Inr (tok, sec))
            \<longleftrightarrow> token_body_ok (response_text (token_response env))"
    using cases by (cases "token_body_ok (response_text (token_response env))") auto
  assume bad: "\<not> token_body_ok (response_text (token_response env))"
  with cases obtain e where e: "snd (get_access_token env u pw ck cs) = Inl (Raise e)"
      "e = ValueError \<or> e = KeyError ''oauth_token'' \<or> e = KeyError ''oauth_token_secret''"
    by blast
  have tr: "fst (get_access_token env u pw ck cs) =
     [NewSession \<lparr>client_key = ck, client_secret = cs,
                    resource_owner_key = None, resource_owner_secret = None\<rparr>,
       Post \<lparr>client_key = ck, client_secret = cs,
              resource_owner_key = None, resource_owner_secret = None\<rparr>
         (INSTAPAPER_API_BASE @ ''/oauth/access_token'')
         [(''x_auth_username'', u), (''x_auth_password'', pw),
          (''x_auth_mode'', JStr ''client_auth'')]]"
    by (simp add: get_access_token_200 [OF assms(2)])
  note run = main_token_raised [OF assms(1) e(1), unfolded tr]
  show "\<exists>e. main env =
                   ([Stdout ''Authenticating with Instapaper...'',
                     NewSession \<lparr>client_key = ck, client_secret = cs,
                                  resource_owner_key = None, resource_owner_secret = None\<rparr>,
                     Post \<lparr>client_key = ck, client_secret = cs,
                            resource_owner_key = None, resource_owner_secret = None\<rparr>
                       (INSTAPAPER_API_BASE @ ''/oauth/access_token'')
                       [(''x_auth_username'', u), (''x_auth_password'', pw),
                        (''x_auth_mode'', JStr ''client_auth'')]],
                    Inl (Raise e))
                \<and> (e = ValueError \<or> e = KeyError ''oauth_token''
                      \<or> e = KeyError ''oauth_token_secret'')
                \<and> error_stream (main env) = [Traceback e]"
    using e(2) by (intro exI [of _ e]) (simp add: run)
  show "concat (map stderr_line (fst (main env))) = []"
    by (simp add: run)
  show "\<forall>n. snd (main env) \<noteq> Inl (SysExit n)"
    by (simp add: run)
qed

theorem token_body_parsing_is_partial_witness:
  "snd (read_credentials
          (sample_env\<lparr>token_response :=
             \<lparr>status_code = 200, response_text = ''oauth_token=T&expired'', json_body = None\<rparr>\<rparr>))
     = Inr (JStr ''ck'', JStr ''cs'', JStr ''reader'', JStr [])
   \<and> status_code (token_response
          (sample_env\<lparr>token_response :=
             \<lparr>status_code = 200, response_text = ''oauth_token=T&expired'', json_body = None\<rparr>\<rparr>))
       = 200
   \<and> \<not> token_body_ok ''oauth_token=T&expired''
   \<and> snd (main
          (sample_env\<lparr>token_response :=
             \<lparr>status_code = 200, response_text = ''oauth_token=T&expired'', json_body = None\<rparr>\<rparr>))
       = Inl (Raise ValueError)
   \<and> error_stream (main
          (sample_env\<lparr>token_response :=
             \<lparr>status_code = 200, response_text = ''oauth_token=T&expired'', json_body = None\<rparr>\<rparr>))
       = [Traceback ValueError]"
proof -
  let ?env = "sample_env\<lparr>token_response :=
             \<lparr>status_code = 200, response_text = ''oauth_token=T&expired'', json_body = None\<rparr>\<rparr>"
  have h1: "snd (read_credentials ?env) = Inr (JStr ''ck'', JStr ''cs'', JStr ''reader'', JStr [])"
    by (simp add: read_credentials_def load_config_def sample_env_def sample_config_def)
  have h2: "status_code (token_response ?env) = 200"
    by simp
  have h3: "\<not> token_body_ok ''oauth_token=T&expired''"
    by (simp add: token_body_ok_def Let_def)
  have gat: "snd (get_access_token ?env (JStr ''reader'') (JStr []) (JStr ''ck'') (JStr ''cs''))
               = Inl (Raise ValueError)"
    by (simp add: get_access_token_def Let_def)
  from token_body_parsing_is_partial [OF h1 h2] h3 gat
  have "\<exists>e. snd (main ?env) = Inl (Raise e) \<and> error_stream (main ?env) = [Traceback e]
           \<and> (e = ValueError \<or> e = KeyError ''oauth_token'' \<or> e = KeyError ''oauth_token_secret'')"
    by auto
  moreover have "snd (main ?env) = Inl (Raise ValueError)"
    using main_token_raised [OF h1 gat] by simp
  ultimately show ?thesis using h1 h2 h3 by auto
qed

end
